theory Spec2Isabelle
  imports Complex_Main
begin

section \<open>Python values used by \<open>backend/rag.py\<close>\<close>

text \<open>
  A Python \<open>str\<close> is modelled as a \<open>string\<close>: the UTF-8 bytes of the text. The
  program only concatenates strings, joins them and compares a role with the literal
  \<open>"user"\<close>, and all three commute with the UTF-8 encoding.
\<close>

text \<open>\<open>xs[-n:]\<close> for a positive literal \<open>n\<close>: the last \<open>n\<close> elements, or all of
  \<open>xs\<close> when it is shorter.\<close>

definition last_n :: "nat \<Rightarrow> 'a list \<Rightarrow> 'a list" where
  "last_n n xs = drop (length xs - n) xs"

text \<open>\<open>sep.join(xs)\<close>.\<close>

fun str_join :: "string \<Rightarrow> string list \<Rightarrow> string" where
  "str_join sep [] = []"
| "str_join sep [x] = x"
| "str_join sep (x # y # ys) = x @ sep @ str_join sep (y # ys)"

text \<open>
  An exception instance, with what \<open>str(e)\<close> returns. \<open>PyException\<close> is an instance
  of \<open>Exception\<close> (\<open>KeyError\<close>, \<open>TimeoutError\<close>, the errors of the clients);
  \<open>PyBaseException\<close> is an instance of \<open>BaseException\<close> outside \<open>Exception\<close>
  (\<open>KeyboardInterrupt\<close>, \<open>SystemExit\<close>, \<open>GeneratorExit\<close>), which a clause
  \<open>except Exception\<close> does not catch.
\<close>

datatype pyexc =
    is_Exception: PyException (exc_str: string)
  | PyBaseException (exc_str: string)

text \<open>One message of the chat history, \<open>{"role": ..., "content": ...}\<close>, as
  \<open>main.py\<close> builds it from the rows of the \<open>messages\<close> table (both columns are
  \<open>TEXT NOT NULL\<close>, so the role is any string).\<close>

record turn =
  role :: string
  content :: string

section \<open>The search query of \<open>generate_response\<close>\<close>

text \<open>
  \<^verbatim>\<open>
  search_query = query
  if chat_history and len(chat_history) > 0:
      recent_user_queries = [msg["content"] for msg in chat_history[-4:] if msg["role"] == "user"]
      if recent_user_queries:
          search_query = " ".join(recent_user_queries[-2:]) + " " + query
  \<close>
  \<open>chat_history\<close> defaults to \<open>None\<close>, which is \<open>None\<close> here.
\<close>

definition recent_user_queries :: "turn list \<Rightarrow> string list" where
  "recent_user_queries chat_history =
     map content (filter (\<lambda>msg. role msg = ''user'') (last_n 4 chat_history))"

definition search_query :: "string \<Rightarrow> turn list option \<Rightarrow> string" where
  "search_query query chat_history =
     (case chat_history of
        None \<Rightarrow> query
      | Some h \<Rightarrow>
          if h \<noteq> [] \<and> length h > 0 then
            (if recent_user_queries h \<noteq> []
             then str_join '' '' (last_n 2 (recent_user_queries h)) @ '' '' @ query
             else query)
          else query)"

text \<open>The composition the specification describes for a non-empty history: no test
  whether a user turn was found.\<close>

definition spec_compose_query :: "string \<Rightarrow> turn list \<Rightarrow> string" where
  "spec_compose_query current_query history =
     (if history = [] then current_query
      else str_join '' ''
             (last_n 2 (map content (filter (\<lambda>t. role t = ''user'') (last_n 4 history))))
           @ '' '' @ current_query)"

section \<open>Python floats\<close>

text \<open>
  A Python \<open>float\<close> is an IEEE 754 binary64 value. A finite one is modelled by the
  rational number it denotes (the two zeros are one value: the program cannot tell them
  apart, and \<open>1.0 - distance\<close> is never \<open>-0.0\<close>); the infinities and NaN are
  separate constructors. Every double is such a value, so a statement about all
  \<open>pyfloat\<close> covers every float the program can receive.
\<close>

datatype pyfloat = Finite rat | PosInf | NegInf | NaN

text \<open>\<open>x < y\<close> on floats: false as soon as one side is NaN.\<close>

fun float_lt :: "pyfloat \<Rightarrow> pyfloat \<Rightarrow> bool" where
  "float_lt NaN y = False"
| "float_lt x NaN = False"
| "float_lt (Finite a) (Finite b) = (a < b)"
| "float_lt NegInf NegInf = False"
| "float_lt NegInf y = True"
| "float_lt x NegInf = False"
| "float_lt PosInf y = False"
| "float_lt (Finite a) PosInf = True"

text \<open>Rounding a non-negative rational to the nearest integer, ties to even.\<close>

definition round_half_even :: "rat \<Rightarrow> int" where
  "round_half_even x =
     (let (p, q) = quotient_of x; f = p div q; r = p mod q
      in if 2 * r < q then f
         else if q < 2 * r then f + 1
         else if even f then f else f + 1)"

definition pow2 :: "int \<Rightarrow> rat" where
  "pow2 e = (if 0 \<le> e then 2 ^ nat e else 1 / 2 ^ nat (- e))"

text \<open>\<open>n.bit_length()\<close> for a non-negative integer.\<close>

function bit_length :: "int \<Rightarrow> int" where
  "bit_length n = (if n \<le> 0 then 0 else 1 + bit_length (n div 2))"
  by pat_completeness auto
termination
  by (relation "measure nat") auto

declare bit_length.simps [simp del]

text \<open>\<open>floor (log2 a)\<close> for a positive rational \<open>a\<close>.\<close>

definition floor_log2 :: "rat \<Rightarrow> int" where
  "floor_log2 a =
     (let (p, q) = quotient_of a;
          k = bit_length p - bit_length q
      in if pow2 k \<le> a then k else k - 1)"

text \<open>
  The result of an arithmetic operation whose exact value is \<open>x\<close>: the nearest double
  \<open>m * 2 ^ e\<close> (53-bit significand \<open>m\<close>, least exponent \<open>-1074\<close>), ties to the even
  significand, and an infinity when \<open>m * 2 ^ e\<close> reaches \<open>2 ^ 1024\<close>, that is when
  it has more than 1024 bits before the binary point.
\<close>

definition round_double :: "rat \<Rightarrow> pyfloat" where
  "round_double x =
     (if x = 0 then Finite 0
      else
        (let a = \<bar>x\<bar>;
             e = max (floor_log2 a - 52) (- 1074);
             m = round_half_even (a / pow2 e)
         in if 1024 < bit_length m + e then (if x < 0 then NegInf else PosInf)
            else Finite (if x < 0 then - (of_int m * pow2 e) else of_int m * pow2 e)))"

text \<open>\<open>x - y\<close> on floats.\<close>

fun float_sub :: "pyfloat \<Rightarrow> pyfloat \<Rightarrow> pyfloat" where
  "float_sub NaN y = NaN"
| "float_sub x NaN = NaN"
| "float_sub (Finite a) (Finite b) = round_double (a - b)"
| "float_sub PosInf PosInf = NaN"
| "float_sub NegInf NegInf = NaN"
| "float_sub PosInf y = PosInf"
| "float_sub NegInf y = NegInf"
| "float_sub (Finite a) PosInf = NegInf"
| "float_sub (Finite a) NegInf = PosInf"

definition digit_char :: "int \<Rightarrow> char" where
  "digit_char d = ''0123456789'' ! nat d"

text \<open>\<open>str(n)\<close> for a non-negative integer.\<close>

function str_int :: "int \<Rightarrow> string" where
  "str_int n =
     (if n < 10 then [digit_char n] else str_int (n div 10) @ [digit_char (n mod 10)])"
  by pat_completeness auto
termination
  by (relation "measure nat") auto

declare str_int.simps [simp del]

text \<open>
  \<open>format(x, ".2f")\<close>: the exact value of the float rounded to two decimals, ties to
  even, with a minus sign for a negative value (also when the digits are all zero).
\<close>

definition format_2f :: "pyfloat \<Rightarrow> string" where
  "format_2f x =
     (case x of
        NaN \<Rightarrow> ''nan''
      | PosInf \<Rightarrow> ''inf''
      | NegInf \<Rightarrow> ''-inf''
      | Finite r \<Rightarrow>
          (let n = round_half_even (\<bar>r\<bar> * 100)
           in (if r < 0 then ''-'' else []) @ str_int (n div 100) @ ''.''
              @ [digit_char (n mod 100 div 10), digit_char (n mod 10)]))"

section \<open>The external services\<close>

text \<open>
  The value a key of the result dictionary holds: the key may be missing (subscripting
  raises \<open>KeyError\<close>), hold \<open>None\<close>, or hold a value.
\<close>

datatype 'a entry = Missing | PyNone | Value 'a

text \<open>
  The dictionary \<open>collection.query\<close> returns: \<open>documents\<close> and \<open>distances\<close> hold one
  list per query text; \<open>other_keys\<close> tells whether the dictionary has any further key
  (\<open>ids\<close>, \<open>metadatas\<close>, ...), which the program never reads.
\<close>

record query_result =
  documents :: "string list list entry"
  distances :: "pyfloat list list entry"
  other_keys :: bool

text \<open>One prior turn as the Gemini client takes it: \<open>{"role": ..., "parts": [...]}\<close>.\<close>

datatype gemini_message = Message (msg_role: string) (msg_parts: "string list")

text \<open>
  The services the module calls: \<open>collection.query(query_texts, n_results)\<close>,
  \<open>model.generate_content(prompt).text\<close>, and
  \<open>model.start_chat(history).send_message(prompt).text\<close>. Each either raises or returns;
  the query may return \<open>None\<close>. Creating the \<open>GenerativeModel\<close> object, before the
  \<open>try\<close> block, calls no service.
\<close>

record services =
  collection_query :: "string list \<Rightarrow> nat \<Rightarrow> pyexc + query_result option"
  generate_content :: "string \<Rightarrow> pyexc + string"
  send_message :: "gemini_message list \<Rightarrow> string \<Rightarrow> pyexc + string"

text \<open>The calls a run makes to the services, in order.\<close>

datatype call =
    CollectionQuery "string list" nat
  | GenerateContent string
  | StartChatSendMessage "gemini_message list" string

section \<open>\<open>search_schemes\<close>\<close>

text \<open>
  \<^verbatim>\<open>
  def search_schemes(query: str, n_results: int = 5):
      results = collection.query(query_texts=[query], n_results=n_results)
      return results
  \<close>
  An omitted \<open>n_results\<close> is \<open>None\<close>.
\<close>

definition n_results_or_default :: "nat option \<Rightarrow> nat" where
  "n_results_or_default n_results = (case n_results of None \<Rightarrow> 5 | Some n \<Rightarrow> n)"

definition search_schemes ::
  "services \<Rightarrow> string \<Rightarrow> nat option \<Rightarrow> call list \<times> (pyexc + query_result option)" where
  "search_schemes env query n_results =
     ([CollectionQuery [query] (n_results_or_default n_results)],
      collection_query env [query] (n_results_or_default n_results))"

section \<open>The context of \<open>generate_response\<close>\<close>

definition newline :: string where
  "newline = [CHR 0x0A]"

text \<open>
  \<^verbatim>\<open>f"--- Relevant Scheme {i+1} (Relevance: {1.0 - distance:.2f}) ---\n{doc}"\<close>
\<close>

definition scheme_block :: "nat \<Rightarrow> string \<Rightarrow> pyfloat \<Rightarrow> string" where
  "scheme_block i doc distance =
     ''--- Relevant Scheme '' @ str_int (int i + 1) @ '' (Relevance: ''
     @ format_2f (float_sub (Finite 1) distance) @ '') ---'' @ newline @ doc"

text \<open>
  \<^verbatim>\<open>
  for i, (doc, distance) in enumerate(zip(documents, distances)):
      if distance < 1.5:
          context_parts.append(...)
  \<close>
  from index \<open>i\<close> on, with the parts collected so far.
\<close>

fun collect_parts :: "nat \<Rightarrow> (string \<times> pyfloat) list \<Rightarrow> string list \<Rightarrow> string list" where
  "collect_parts i [] context_parts = context_parts"
| "collect_parts i ((doc, distance) # rest) context_parts =
     collect_parts (Suc i) rest
       (if float_lt distance (Finite (3 / 2))
        then context_parts @ [scheme_block i doc distance]
        else context_parts)"

text \<open>Truth value of the result dictionary: a dictionary is false when it is empty.\<close>

definition dict_truthy :: "query_result \<Rightarrow> bool" where
  "dict_truthy r = (documents r \<noteq> Missing \<or> distances r \<noteq> Missing \<or> other_keys r)"

text \<open>
  \<^verbatim>\<open>
  context_parts = []
  if search_results and search_results['documents'] and search_results['distances']:
      documents = search_results['documents'][0]
      distances = search_results['distances'][0]
      for ...
  \<close>
  The \<open>and\<close> chain stops at the first false operand; a missing key raises.
\<close>

definition key_error :: "string \<Rightarrow> pyexc" where
  "key_error k = PyException ([CHR 0x27] @ k @ [CHR 0x27])"

definition context_parts :: "query_result option \<Rightarrow> pyexc + string list" where
  "context_parts search_results =
     (case search_results of
        None \<Rightarrow> Inr []
      | Some r \<Rightarrow>
          if \<not> dict_truthy r then Inr []
          else
            (case documents r of
               Missing \<Rightarrow> Inl (key_error ''documents'')
             | PyNone \<Rightarrow> Inr []
             | Value [] \<Rightarrow> Inr []
             | Value (docs # _) \<Rightarrow>
                 (case distances r of
                    Missing \<Rightarrow> Inl (key_error ''distances'')
                  | PyNone \<Rightarrow> Inr []
                  | Value [] \<Rightarrow> Inr []
                  | Value (dists # _) \<Rightarrow> Inr (collect_parts 0 (zip docs dists) []))))"

definition no_relevant_schemes :: string where
  "no_relevant_schemes = ''No highly relevant schemes found in the database for this query.''"

text \<open>
  \<^verbatim>\<open>
  if not context_parts:
      context = "No highly relevant schemes found in the database for this query."
  else:
      context = "\n\n".join(context_parts)
  \<close>
\<close>

definition context_str :: "string list \<Rightarrow> string" where
  "context_str parts =
     (if parts = [] then no_relevant_schemes else str_join (newline @ newline) parts)"

section \<open>The prompt and the conversation sent to Gemini\<close>

definition system_prompt :: string where
  "system_prompt =
     ''You are a helpful assistant specializing in Indian government schemes, particularly for Tamil Nadu and all-India schemes. '' @ newline @
     ''Your role is to provide accurate, detailed information about government schemes based ONLY on the context provided below.'' @ newline @
     newline @
     ''CRITICAL RULES:'' @ newline @
     ''1. ONLY use information from the context provided below - DO NOT make up or add information'' @ newline @
     ''2. If the answer is not in the context, clearly state \"I don't have information about this in the provided schemes database\"'' @ newline @
     ''3. Be specific and cite exact scheme names from the context'' @ newline @
     ''4. When providing details, copy them accurately from the context (eligibility, benefits, application process)'' @ newline @
     ''5. Format your response in clear, well-structured markdown with tables where appropriate'' @ newline @
     ''6. If multiple relevant schemes are found, compare them to help the user choose'' @ newline @
     ''7. MAINTAIN CONVERSATION CONTEXT: If the user asks a follow-up question (like \"where do I apply?\" or \"what documents needed?\"), answer about the SAME schemes discussed in the previous messages, NOT about different schemes'' @ newline @
     newline @
     ''Context from relevant government schemes:'' @ newline"

text \<open>
  \<^verbatim>\<open>
  context_note = ""
  if chat_history and len(chat_history) > 0:
      context_note = "\n\nNOTE: ..."
  \<close>
\<close>

definition context_note :: "turn list option \<Rightarrow> string" where
  "context_note chat_history =
     (case chat_history of
        None \<Rightarrow> []
      | Some h \<Rightarrow>
          if h \<noteq> [] \<and> length h > 0
          then newline @ newline @ ''NOTE: This is a follow-up question in an ongoing conversation. Make sure to answer about the schemes already being discussed, not new unrelated schemes.''
          else [])"

text \<open>
  \<^verbatim>\<open>
  full_prompt = f"{system_prompt}\n\n{context}\n\n---\n\nUser Question: {query}{context_note}\n\nPlease answer based ONLY on the schemes provided in the context above."
  \<close>
\<close>

definition full_prompt :: "string \<Rightarrow> string \<Rightarrow> turn list option \<Rightarrow> string" where
  "full_prompt query ctx chat_history =
     system_prompt @ newline @ newline @ ctx @ newline @ newline @ ''---'' @ newline @ newline
     @ ''User Question: '' @ query @ context_note chat_history @ newline @ newline
     @ ''Please answer based ONLY on the schemes provided in the context above.''"

text \<open>
  \<^verbatim>\<open>
  for msg in chat_history[-6:]:
      role = "user" if msg["role"] == "user" else "model"
      messages.append({"role": role, "parts": [msg["content"]]})
  \<close>
\<close>

fun append_history :: "turn list \<Rightarrow> gemini_message list \<Rightarrow> gemini_message list" where
  "append_history [] msgs = msgs"
| "append_history (msg # rest) msgs =
     append_history rest
       (msgs @ [Message (if role msg = ''user'' then ''user'' else ''model'') [content msg]])"

text \<open>
  \<^verbatim>\<open>
  messages = []
  if chat_history:
      for msg in chat_history[-6:]: ...
  messages.append({"role": "user", "parts": [full_prompt]})
  \<close>
\<close>

definition messages :: "string \<Rightarrow> turn list option \<Rightarrow> gemini_message list" where
  "messages prompt chat_history =
     (case chat_history of
        None \<Rightarrow> []
      | Some h \<Rightarrow> if h \<noteq> [] then append_history (last_n 6 h) [] else [])
     @ [Message ''user'' [prompt]]"

definition apology :: string where
  "apology = ''I apologize, but I encountered an error while processing your request: ''"

text \<open>
  \<^verbatim>\<open>
  try:
      if len(messages) == 1:
          response = model.generate_content(full_prompt)
      else:
          chat = model.start_chat(history=messages[:-1])
          response = chat.send_message(full_prompt)
      return response.text
  except Exception as e:
      return f"I apologize, ...: {str(e)}"
  \<close>
  The call made, and the outcome of the block: the text of the reply; the apology for an
  exception that is an instance of \<open>Exception\<close>; any other exception is not caught and
  leaves the function.
\<close>

definition gemini_call :: "string \<Rightarrow> gemini_message list \<Rightarrow> call" where
  "gemini_call prompt msgs =
     (if length msgs = 1 then GenerateContent prompt
      else StartChatSendMessage (butlast msgs) prompt)"

definition ask_gemini ::
  "services \<Rightarrow> string \<Rightarrow> gemini_message list \<Rightarrow> pyexc + string" where
  "ask_gemini env prompt msgs =
     (case (if length msgs = 1 then generate_content env prompt
            else send_message env (butlast msgs) prompt) of
        Inr text \<Rightarrow> Inr text
      | Inl e \<Rightarrow> if is_Exception e then Inr (apology @ exc_str e) else Inl e)"

section \<open>\<open>generate_response\<close>\<close>

text \<open>
  A run of \<open>generate_response(query, chat_history)\<close>: the calls made to the services and
  the outcome, \<open>Inl\<close> for an exception that leaves the function and \<open>Inr\<close> for the
  string returned. The search is called with \<open>n_results=10\<close>.
\<close>

definition run_generate_response ::
  "services \<Rightarrow> string \<Rightarrow> turn list option \<Rightarrow> call list \<times> (pyexc + string)" where
  "run_generate_response env query chat_history =
     (let (calls, found) = search_schemes env (search_query query chat_history) (Some 10)
      in case found of
           Inl e \<Rightarrow> (calls, Inl e)
         | Inr search_results \<Rightarrow>
             (case context_parts search_results of
                Inl e \<Rightarrow> (calls, Inl e)
              | Inr parts \<Rightarrow>
                  (let prompt = full_prompt query (context_str parts) chat_history;
                       msgs = messages prompt chat_history
                   in (calls @ [gemini_call prompt msgs], ask_gemini env prompt msgs))))"

definition generate_response :: "services \<Rightarrow> string \<Rightarrow> turn list option \<Rightarrow> pyexc + string" where
  "generate_response env query chat_history = snd (run_generate_response env query chat_history)"

section \<open>Notions of the specification\<close>

text \<open>\<open>x >= y\<close> on floats: false as soon as one side is NaN.\<close>

fun float_ge :: "pyfloat \<Rightarrow> pyfloat \<Rightarrow> bool" where
  "float_ge NaN y = False"
| "float_ge x NaN = False"
| "float_ge (Finite a) (Finite b) = (b \<le> a)"
| "float_ge PosInf y = True"
| "float_ge x NegInf = True"
| "float_ge NegInf y = False"
| "float_ge (Finite a) PosInf = False"

text \<open>The filtering rule of the specification: a match, a document with its distance,
  is retained iff its distance is below the cutoff 1.5.\<close>

definition retained :: "string \<times> pyfloat \<Rightarrow> bool" where
  "retained m = float_lt (snd m) (Finite (3 / 2))"

text \<open>The 1-based positions, in the unfiltered list of matches, of the retained ones.\<close>

definition retained_positions :: "(string \<times> pyfloat) list \<Rightarrow> nat list" where
  "retained_positions ms = map Suc (filter (\<lambda>i. retained (ms ! i)) [0..<length ms])"

text \<open>A list of numbers is consecutive when each is the successor of the one before.\<close>

fun consecutive :: "nat list \<Rightarrow> bool" where
  "consecutive [] = True"
| "consecutive [x] = True"
| "consecutive (x # y # ys) = (y = Suc x \<and> consecutive (y # ys))"

text \<open>The history window of the specification: the last 6 turns, oldest first, each with
  the role \<open>user\<close> when its role is user and \<open>model\<close> otherwise.\<close>

definition spec_history_window :: "turn list \<Rightarrow> gemini_message list" where
  "spec_history_window history =
     map (\<lambda>t. Message (if role t = ''user'' then ''user'' else ''model'') [content t])
       (drop (length history - 6) history)"

text \<open>The number a string of decimal digits denotes, \<open>int(s)\<close>.\<close>

definition decimal_value :: "string \<Rightarrow> int" where
  "decimal_value s = foldl (\<lambda>v c. 10 * v + (of_char c - 48)) 0 s"

text \<open>The truth value of a field that holds \<open>None\<close> or a list: \<open>None\<close> and the
  empty list are false.\<close>

definition entry_falsy :: "'a list entry \<Rightarrow> bool" where
  "entry_falsy e = (case e of Missing \<Rightarrow> False | PyNone \<Rightarrow> True | Value xs \<Rightarrow> xs = [])"

text \<open>A result without matches: \<open>None\<close>, an empty dictionary, or a dictionary that has
  both the \<open>documents\<close> and the \<open>distances\<close> field, one of them \<open>None\<close> or
  empty.\<close>

definition degraded_result :: "query_result option \<Rightarrow> bool" where
  "degraded_result search_results =
     (case search_results of
        None \<Rightarrow> True
      | Some r \<Rightarrow>
          if documents r = Missing \<and> distances r = Missing then \<not> other_keys r
          else documents r \<noteq> Missing \<and> distances r \<noteq> Missing
               \<and> (entry_falsy (documents r) \<or> entry_falsy (distances r)))"

text \<open>The index honours the number of documents requested: a result holds at most
  \<open>k\<close> documents for the query text.\<close>

definition at_most_documents :: "nat \<Rightarrow> query_result option \<Rightarrow> bool" where
  "at_most_documents k search_results =
     (case search_results of
        None \<Rightarrow> True
      | Some r \<Rightarrow>
          (case documents r of
             Value (docs # _) \<Rightarrow> length docs \<le> k
           | _ \<Rightarrow> True))"

section \<open>Facts about the helpers\<close>

lemma length_last_n: "length (last_n n xs) = min n (length xs)"
  by (simp add: last_n_def)

lemma last_n_suffix: "take (length xs - n) xs @ last_n n xs = xs"
  by (simp add: last_n_def)

lemma str_join_Cons: "str_join sep (x # xs) = x @ concat (map (\<lambda>y. sep @ y) xs)"
  by (induction xs arbitrary: x) simp_all

section \<open>The search query\<close>

lemma search_query_Some:
  "search_query query (Some h) =
     (if recent_user_queries h = [] then query
      else str_join '' '' (last_n 2 (recent_user_queries h)) @ '' '' @ query)"
  by (cases h) (simp_all add: search_query_def recent_user_queries_def last_n_def)

text \<open>
  C1, as stated, fails: after a history whose last four turns hold no user turn the
  program searches for the query itself, where the described composition puts a space
  in front of it.
\<close>

theorem search_query_counterexample:
  "search_query ''q'' (Some [\<lparr>role = ''assistant'', content = ''a''\<rparr>]) = ''q''
   \<and> spec_compose_query ''q'' [\<lparr>role = ''assistant'', content = ''a''\<rparr>] = '' q''
   \<and> search_query ''q'' (Some [\<lparr>role = ''assistant'', content = ''a''\<rparr>])
       \<noteq> spec_compose_query ''q'' [\<lparr>role = ''assistant'', content = ''a''\<rparr>]"
  by (simp add: search_query_def spec_compose_query_def recent_user_queries_def last_n_def)

text \<open>
  C1, amended: without a history, with an empty one, and with one whose last 4 turns
  hold no turn of role user, the search query is the current query verbatim. Otherwise
  it is the composition of the specification: of the last 4 turns those of role user, of
  these the last 2 in their order, their contents joined by a single space, then a space
  and the current query. For user turns \<open>q1, q2, q3\<close> interleaved with assistant turns
  (whether or not the last reply is part of the history) and the query \<open>q4\<close> this is
  \<open>q2 + " " + q3 + " " + q4\<close>.
\<close>

theorem search_query_composed:
  "search_query query None = query
   \<and> search_query query (Some h) =
       (if filter (\<lambda>t. role t = ''user'') (last_n 4 h) = [] then query
        else spec_compose_query query h)
   \<and> search_query q4
         (Some [\<lparr>role = ''user'', content = q1\<rparr>, \<lparr>role = ''assistant'', content = a1\<rparr>,
                \<lparr>role = ''user'', content = q2\<rparr>, \<lparr>role = ''assistant'', content = a2\<rparr>,
                \<lparr>role = ''user'', content = q3\<rparr>, \<lparr>role = ''assistant'', content = a3\<rparr>])
       = q2 @ '' '' @ q3 @ '' '' @ q4
   \<and> search_query q4
         (Some [\<lparr>role = ''user'', content = q1\<rparr>, \<lparr>role = ''assistant'', content = a1\<rparr>,
                \<lparr>role = ''user'', content = q2\<rparr>, \<lparr>role = ''assistant'', content = a2\<rparr>,
                \<lparr>role = ''user'', content = q3\<rparr>])
       = q2 @ '' '' @ q3 @ '' '' @ q4"
proof (intro conjI)
  show "search_query query None = query"
    by (simp add: search_query_def)
  show "search_query query (Some h) =
       (if filter (\<lambda>t. role t = ''user'') (last_n 4 h) = [] then query
        else spec_compose_query query h)"
  proof (cases "h = []")
    case True
    then show ?thesis
      by (simp add: search_query_def last_n_def)
  next
    case False
    then show ?thesis
      by (simp add: search_query_Some recent_user_queries_def spec_compose_query_def)
  qed
  show "search_query q4
         (Some [\<lparr>role = ''user'', content = q1\<rparr>, \<lparr>role = ''assistant'', content = a1\<rparr>,
                \<lparr>role = ''user'', content = q2\<rparr>, \<lparr>role = ''assistant'', content = a2\<rparr>,
                \<lparr>role = ''user'', content = q3\<rparr>, \<lparr>role = ''assistant'', content = a3\<rparr>])
       = q2 @ '' '' @ q3 @ '' '' @ q4"
    by (simp add: search_query_Some recent_user_queries_def last_n_def)
  show "search_query q4
         (Some [\<lparr>role = ''user'', content = q1\<rparr>, \<lparr>role = ''assistant'', content = a1\<rparr>,
                \<lparr>role = ''user'', content = q2\<rparr>, \<lparr>role = ''assistant'', content = a2\<rparr>,
                \<lparr>role = ''user'', content = q3\<rparr>])
       = q2 @ '' '' @ q3 @ '' '' @ q4"
    by (simp add: search_query_Some recent_user_queries_def last_n_def)
qed

theorem search_query_composed_witness:
  "search_query ''where do I apply?'' None = ''where do I apply?''
   \<and> search_query ''where do I apply?''
         (Some [\<lparr>role = ''user'', content = ''pension''\<rparr>,
                \<lparr>role = ''assistant'', content = ''There are two schemes.''\<rparr>])
       = ''pension where do I apply?''"
  using search_query_composed
    [of "''where do I apply?''"
        "[\<lparr>role = ''user'', content = ''pension''\<rparr>,
          \<lparr>role = ''assistant'', content = ''There are two schemes.''\<rparr>]"]
  by (simp add: spec_compose_query_def last_n_def)

section \<open>The loop over the matches\<close>

lemma collect_parts_acc:
  "collect_parts i ms acc =
     acc @ map (\<lambda>(j, doc, d). scheme_block j doc d)
             (filter (\<lambda>(j, m). retained m) (enumerate i ms))"
proof (induction ms arbitrary: i acc)
  case Nil
  show ?case by simp
next
  case (Cons m ms)
  obtain doc d where m: "m = (doc, d)" by (cases m)
  show ?case
    by (simp add: m Cons.IH retained_def)
qed

lemma collect_parts_eq:
  "collect_parts 0 ms [] =
     map (\<lambda>(j, doc, d). scheme_block j doc d) (filter (\<lambda>(j, m). retained m) (enumerate 0 ms))"
  by (simp add: collect_parts_acc)

lemma filter_enumerate_snd:
  "map snd (filter (\<lambda>(j, m). P m) (enumerate i ms)) = filter P ms"
  by (induction ms arbitrary: i) simp_all

lemma enumerate_nth: "enumerate 0 ms = map (\<lambda>j. (j, ms ! j)) [0..<length ms]"
proof (rule nth_equalityI)
  show "length (enumerate 0 ms) = length (map (\<lambda>j. (j, ms ! j)) [0..<length ms])"
    by simp
next
  fix i
  assume "i < length (enumerate 0 ms)"
  then show "enumerate 0 ms ! i = map (\<lambda>j. (j, ms ! j)) [0..<length ms] ! i"
    by (simp add: nth_enumerate_eq)
qed

lemma filter_enumerate_nth:
  "filter (\<lambda>(j, m). P m) (enumerate 0 ms) =
     map (\<lambda>j. (j, ms ! j)) (filter (\<lambda>j. P (ms ! j)) [0..<length ms])"
  by (simp add: enumerate_nth filter_map comp_def)

lemma context_parts_well_formed:
  "context_parts (Some \<lparr>documents = Value (docs # more_docs),
                        distances = Value (dists # more_dists), other_keys = k\<rparr>)
     = Inr (collect_parts 0 (zip docs dists) [])"
  by (simp add: context_parts_def dict_truthy_def)

section \<open>The float model\<close>

lemma round_half_even_close: "\<bar>of_int (round_half_even x) - x\<bar> \<le> 1 / 2"
proof -
  obtain p q where pq: "quotient_of x = (p, q)"
    by (cases "quotient_of x")
  have q: "0 < q"
    using quotient_of_denom_pos [OF pq] .
  have x: "x = of_int p / of_int q"
    using quotient_of_div [OF pq] .
  define f where "f = p div q"
  define r where "r = p mod q"
  have p: "p = f * q + r"
    by (simp add: f_def r_def)
  have r: "0 \<le> r" "r < q"
    using q by (simp_all add: r_def)
  have qr: "(0::rat) < of_int q"
    using q by simp
  have frac: "x - of_int f = of_int r / of_int q"
    using qr by (simp add: x p field_simps)
  have up: "of_int (f + 1) - x = (of_int q - of_int r) / of_int q"
    using qr by (simp add: x p field_simps)
  have val: "round_half_even x =
      (if 2 * r < q then f else if q < 2 * r then f + 1 else if even f then f else f + 1)"
    by (simp add: round_half_even_def pq f_def r_def Let_def)
  consider "2 * r < q" | "q < 2 * r" | "2 * r = q"
    by linarith
  then show ?thesis
  proof cases
    case 1
    then have "(of_int r :: rat) / of_int q \<le> 1 / 2"
      using qr by (simp add: field_simps)
    moreover have "(0::rat) \<le> of_int r / of_int q"
      using r qr by simp
    ultimately show ?thesis
      using 1 frac by (simp add: val abs_if)
  next
    case 2
    then have "(of_int q - of_int r :: rat) / of_int q \<le> 1 / 2"
      using qr by (simp add: field_simps)
    moreover have "(0::rat) \<le> (of_int q - of_int r) / of_int q"
      using r qr by simp
    ultimately show ?thesis
      using 2 up by (simp add: val abs_if)
  next
    case 3
    then have h: "(of_int r :: rat) / of_int q = 1 / 2"
      using qr by (simp add: field_simps)
    have lo: "x - of_int f = 1 / 2"
      using frac h by simp
    then have "of_int (f + 1) - x = 1 / 2"
      by simp
    then show ?thesis
      using 3 lo by (simp add: val abs_if)
  qed
qed

lemma bit_length_pos: "0 < n \<Longrightarrow> 0 < bit_length n"
proof (induction n rule: bit_length.induct)
  case (1 n)
  have "0 \<le> bit_length (n div 2)"
  proof (cases "0 < n div 2")
    case True
    with "1.prems" "1.IH" show ?thesis by simp
  next
    case False
    then show ?thesis by (simp add: bit_length.simps)
  qed
  with "1.prems" show ?case
    by (simp add: bit_length.simps [of n])
qed

lemma bit_length_bounds:
  "0 < n \<Longrightarrow> 2 ^ nat (bit_length n - 1) \<le> n \<and> n < 2 ^ nat (bit_length n)"
proof (induction n rule: bit_length.induct)
  case (1 n)
  show ?case
  proof (cases "n = 1")
    case True
    then show ?thesis
      by (simp add: bit_length.simps [of 1] bit_length.simps [of 0])
  next
    case False
    with "1.prems" have half: "0 < n div 2"
      by simp
    define b where "b = bit_length (n div 2)"
    have b: "0 < b"
      using half by (simp add: b_def bit_length_pos)
    have ih: "2 ^ nat (b - 1) \<le> n div 2" "n div 2 < 2 ^ nat b"
      using "1.IH" "1.prems" half by (simp_all add: b_def)
    have bn: "bit_length n = 1 + b"
      using "1.prems" by (simp add: bit_length.simps [of n] b_def)
    have "nat b = Suc (nat (b - 1))"
      using b by simp
    then have p: "(2::int) ^ nat b = 2 * 2 ^ nat (b - 1)"
      by simp
    have "nat (1 + b) = Suc (nat b)"
      using b by simp
    then have p': "(2::int) ^ nat (1 + b) = 2 * 2 ^ nat b"
      by simp
    have lo: "2 ^ nat b \<le> n"
      using ih(1) p by simp
    have hi: "n < 2 ^ nat (1 + b)"
      using ih(2) p' by simp
    show ?thesis
      using lo hi by (simp add: bn)
  qed
qed

lemma pow2_power_int: "pow2 e = power_int 2 e"
  by (simp add: pow2_def power_int_def inverse_eq_divide power_one_over)

lemma pow2_pos: "0 < pow2 e"
  by (simp add: pow2_power_int)

text \<open>The overflow test of \<open>round_double\<close> is the comparison of the rounded value
  with \<open>2 ^ 1024\<close>.\<close>

lemma overflow_test:
  assumes "0 < m"
  shows "1024 < bit_length m + e \<longleftrightarrow> 2 ^ 1024 \<le> of_int m * pow2 e"
proof -
  define b where "b = bit_length m"
  have b: "0 < b"
    using assms by (simp add: b_def bit_length_pos)
  have "2 ^ nat (b - 1) \<le> m" "m < 2 ^ nat b"
    using bit_length_bounds [OF assms] by (simp_all add: b_def)
  then have "(of_int (2 ^ nat (b - 1)) :: rat) \<le> of_int m" "(of_int m :: rat) < of_int (2 ^ nat b)"
    by (simp_all only: of_int_le_iff of_int_less_iff)
  then have m: "power_int 2 (b - 1) \<le> (of_int m :: rat)" "(of_int m :: rat) < power_int 2 b"
    using b by (simp_all add: power_int_def)
  have big: "(2::rat) ^ 1024 = power_int 2 1024"
    by (simp add: power_int_def)
  show ?thesis
  proof
    assume "1024 < bit_length m + e"
    then have "1024 \<le> (b - 1) + e"
      by (simp add: b_def)
    then have "power_int (2::rat) 1024 \<le> power_int 2 ((b - 1) + e)"
      by (intro power_int_increasing) simp_all
    also have "\<dots> = power_int 2 (b - 1) * power_int 2 e"
      by (simp add: power_int_add)
    also have "\<dots> \<le> of_int m * power_int 2 e"
      using m(1) by (intro mult_right_mono) simp_all
    finally show "2 ^ 1024 \<le> of_int m * pow2 e"
      by (simp only: big pow2_power_int)
  next
    assume "2 ^ 1024 \<le> of_int m * pow2 e"
    then have "power_int (2::rat) 1024 \<le> of_int m * power_int 2 e"
      by (simp only: big pow2_power_int)
    also have "\<dots> < power_int 2 b * power_int 2 e"
      using m(2) by (intro mult_strict_right_mono) simp_all
    also have "\<dots> = power_int 2 (b + e)"
      by (simp add: power_int_add)
    finally have lt: "power_int (2::rat) 1024 < power_int 2 (b + e)" .
    have "1024 < b + e"
    proof (rule ccontr)
      assume "\<not> 1024 < b + e"
      then have "b + e \<le> 1024"
        by simp
      then have "power_int (2::rat) (b + e) \<le> power_int 2 1024"
        by (intro power_int_increasing) simp_all
      with lt show False
        by simp
    qed
    then show "1024 < bit_length m + e"
      by (simp add: b_def)
  qed
qed

text \<open>\<open>floor_log2\<close> is the binary exponent of a positive rational.\<close>

lemma floor_log2_bounds:
  assumes "0 < a"
  shows "pow2 (floor_log2 a) \<le> a \<and> a < pow2 (floor_log2 a + 1)"
proof -
  obtain p q where pq: "quotient_of a = (p, q)"
    by (cases "quotient_of a")
  have q: "0 < q"
    using quotient_of_denom_pos [OF pq] .
  have a: "a = of_int p / of_int q"
    using quotient_of_div [OF pq] .
  have p: "0 < p"
    using assms q by (simp add: a zero_less_divide_iff)
  define bp where "bp = bit_length p"
  define bq where "bq = bit_length q"
  define k where "k = bp - bq"
  have "2 ^ nat (bp - 1) \<le> p" "p < 2 ^ nat bp" "2 ^ nat (bq - 1) \<le> q" "q < 2 ^ nat bq"
    using bit_length_bounds [OF p] bit_length_bounds [OF q] by (simp_all add: bp_def bq_def)
  then have "(of_int (2 ^ nat (bp - 1)) :: rat) \<le> of_int p" "(of_int p :: rat) < of_int (2 ^ nat bp)"
    "(of_int (2 ^ nat (bq - 1)) :: rat) \<le> of_int q" "(of_int q :: rat) < of_int (2 ^ nat bq)"
    by (simp_all only: of_int_le_iff of_int_less_iff)
  moreover have "0 < bp" "0 < bq"
    using p q by (simp_all add: bp_def bq_def bit_length_pos)
  ultimately have b: "power_int 2 (bp - 1) \<le> (of_int p :: rat)" "(of_int p :: rat) < power_int 2 bp"
    "power_int 2 (bq - 1) \<le> (of_int q :: rat)" "(of_int q :: rat) < power_int 2 bq"
    by (simp_all add: power_int_def)
  have qr: "(0::rat) < of_int q"
    using q by simp
  have "(of_int p :: rat) < power_int 2 (k + 1) * power_int 2 (bq - 1)"
    using b(2) by (simp add: k_def flip: power_int_add)
  also have "\<dots> \<le> power_int 2 (k + 1) * of_int q"
    using b(3) by (intro mult_left_mono) simp_all
  finally have hi: "a < power_int 2 (k + 1)"
    using qr by (simp add: a field_simps)
  have "power_int 2 (k - 1) * (of_int q :: rat) < power_int 2 (k - 1) * power_int 2 bq"
    using b(4) by (intro mult_strict_left_mono) simp_all
  also have "\<dots> = power_int 2 (bp - 1)"
    by (simp add: k_def flip: power_int_add)
  also have "\<dots> \<le> of_int p"
    by (rule b(1))
  finally have lo: "power_int 2 (k - 1) < a"
    using qr by (simp add: a field_simps)
  have val: "floor_log2 a = (if pow2 k \<le> a then k else k - 1)"
    by (simp add: floor_log2_def pq k_def bp_def bq_def Let_def)
  show ?thesis
  proof (cases "pow2 k \<le> a")
    case True
    then show ?thesis
      using hi by (simp add: val pow2_power_int)
  next
    case False
    then show ?thesis
      using lo by (simp add: val pow2_power_int)
  qed
qed

text \<open>A finite result of \<open>round_double\<close> is an integer multiple of \<open>2 ^ e\<close>, for the
  exponent \<open>e\<close> of the operand, and lies within half of \<open>2 ^ e\<close> of the exact value.\<close>

lemma round_double_close:
  assumes "x \<noteq> 0" "round_double x = Finite y"
  defines "e \<equiv> max (floor_log2 \<bar>x\<bar> - 52) (- 1074)"
  shows "\<bar>y\<bar> = of_int (round_half_even (\<bar>x\<bar> / pow2 e)) * pow2 e \<and> \<bar>y - x\<bar> \<le> pow2 e / 2"
proof -
  define m where "m = round_half_even (\<bar>x\<bar> / pow2 e)"
  have y: "y = (if x < 0 then - (of_int m * pow2 e) else of_int m * pow2 e)"
    using assms(1,2) by (simp add: round_double_def Let_def m_def e_def split: if_splits)
  have "\<bar>of_int m - \<bar>x\<bar> / pow2 e\<bar> \<le> 1 / 2"
    unfolding m_def by (rule round_half_even_close)
  then have "\<bar>of_int m - \<bar>x\<bar> / pow2 e\<bar> * pow2 e \<le> 1 / 2 * pow2 e"
    using pow2_pos [of e] by (intro mult_right_mono) simp_all
  moreover have "\<bar>of_int m - \<bar>x\<bar> / pow2 e\<bar> * pow2 e = \<bar>of_int m * pow2 e - \<bar>x\<bar>\<bar>"
  proof -
    have ne: "pow2 e \<noteq> 0"
      using pow2_pos [of e] by simp
    have "\<bar>of_int m - \<bar>x\<bar> / pow2 e\<bar> * pow2 e = \<bar>(of_int m - \<bar>x\<bar> / pow2 e) * pow2 e\<bar>"
      using pow2_pos [of e] by (simp only: abs_mult abs_of_pos)
    also have "(of_int m - \<bar>x\<bar> / pow2 e) * pow2 e = of_int m * pow2 e - \<bar>x\<bar>"
      using ne by (simp add: left_diff_distrib)
    finally show ?thesis .
  qed
  ultimately have close: "\<bar>of_int m * pow2 e - \<bar>x\<bar>\<bar> \<le> pow2 e / 2"
    by simp
  have "0 \<le> \<bar>x\<bar> / pow2 e"
    using pow2_pos [of e] by simp
  have m0: "0 \<le> (of_int m :: rat) * pow2 e"
  proof (rule ccontr)
    assume "\<not> 0 \<le> (of_int m :: rat) * pow2 e"
    then have "(of_int m :: rat) < 0"
      using pow2_pos [of e] by (simp add: mult_less_0_iff not_le)
    then have "m \<le> - 1"
      by simp
    then have "(of_int m :: rat) \<le> - 1"
      by (metis of_int_le_iff of_int_minus of_int_1)
    moreover define z where "z = \<bar>x\<bar> / pow2 e"
    ultimately show False
      using \<open>\<bar>of_int m - \<bar>x\<bar> / pow2 e\<bar> \<le> 1 / 2\<close> \<open>0 \<le> \<bar>x\<bar> / pow2 e\<close>
      unfolding z_def [symmetric] by linarith
  qed
  define r where "r = of_int m * pow2 e"
  have "\<bar>y\<bar> = r \<and> \<bar>y - x\<bar> \<le> pow2 e / 2"
  proof (cases "x < 0")
    case True
    then have "y = - r"
      by (simp add: y r_def)
    then show ?thesis
      using True close m0 unfolding r_def [symmetric] by (simp add: abs_if split: if_splits)
  next
    case False
    then have "y = r"
      by (simp add: y r_def)
    then show ?thesis
      using False close m0 unfolding r_def [symmetric] by (simp add: abs_if split: if_splits)
  qed
  then show ?thesis
    by (simp add: r_def m_def)
qed

text \<open>The model on values Python prints: \<open>(0.1).as_integer_ratio()\<close>,
  \<open>(1/3).as_integer_ratio()\<close>, two ties at \<open>2 ^ 53\<close>, and \<open>"%.2f"\<close> of
  2.675, 0.125, 0.375, -0.001 and 12345.678.\<close>

lemma round_double_examples:
  "round_double (1 / 10) = Finite (3602879701896397 / 36028797018963968)"
  "round_double (1 / 3) = Finite (6004799503160661 / 18014398509481984)"
  "round_double (3 / 2) = Finite (3 / 2)"
  "round_double 1 = Finite 1"
  "round_double 9007199254740993 = Finite 9007199254740992"
  "round_double 9007199254740995 = Finite 9007199254740996"
  by code_simp+

lemma format_2f_examples:
  "format_2f (round_double (2675 / 1000)) = ''2.67''"
  "format_2f (Finite (1 / 8)) = ''0.12''"
  "format_2f (Finite (3 / 8)) = ''0.38''"
  "format_2f (Finite (- 1 / 1000)) = ''-0.00''"
  "format_2f (Finite (12345678 / 1000)) = ''12345.68''"
  "format_2f PosInf = ''inf''"
  "format_2f NaN = ''nan''"
  by code_simp+

section \<open>Rounding to two decimals\<close>

lemma format_2f_Finite:
  "format_2f (Finite r) =
     (if r < 0 then ''-'' else []) @ str_int (round_half_even (\<bar>r\<bar> * 100) div 100) @ ''.''
     @ [digit_char (round_half_even (\<bar>r\<bar> * 100) mod 100 div 10),
        digit_char (round_half_even (\<bar>r\<bar> * 100) mod 10)]"
  by (simp add: format_2f_def Let_def)

lemma two_decimals_close: "\<bar>of_int (round_half_even (\<bar>r\<bar> * 100)) / 100 - \<bar>r\<bar>\<bar> \<le> 1 / 200"
proof -
  have "\<bar>of_int (round_half_even (\<bar>r\<bar> * 100)) - \<bar>r\<bar> * 100\<bar> \<le> 1 / 2"
    by (rule round_half_even_close)
  then show ?thesis
    by (simp add: abs_le_iff field_simps)
qed

section \<open>Float literals of the examples\<close>

text \<open>The literals 0.2, 1.6, 0.9, 0.3 and 1.2 (fractions in lowest terms), how they
  compare with the cutoff, and the relevance displayed for them.\<close>

lemma double_0_2: "round_double (1 / 5) = Finite (3602879701896397 / 18014398509481984)"
  by code_simp

lemma double_1_6: "round_double (8 / 5) = Finite (3602879701896397 / 2251799813685248)"
  by code_simp

lemma double_0_9: "round_double (9 / 10) = Finite (8106479329266893 / 9007199254740992)"
  by code_simp

lemma double_0_3: "round_double (3 / 10) = Finite (5404319552844595 / 18014398509481984)"
  by code_simp

lemma double_1_2: "round_double (6 / 5) = Finite (5404319552844595 / 4503599627370496)"
  by code_simp

lemma relevance_0_2: "format_2f (float_sub (Finite 1) (round_double (1 / 5))) = ''0.80''"
  by code_simp

lemma relevance_0_9: "format_2f (float_sub (Finite 1) (round_double (9 / 10))) = ''0.10''"
  by code_simp

lemma relevance_0_3: "format_2f (float_sub (Finite 1) (round_double (3 / 10))) = ''0.70''"
  by code_simp

lemma relevance_1_2: "format_2f (float_sub (Finite 1) (round_double (6 / 5))) = ''-0.20''"
  by code_simp

lemma retained_examples:
  "retained (d, round_double (1 / 5))" "\<not> retained (d, round_double (8 / 5))"
  "retained (d, round_double (9 / 10))" "retained (d, round_double (3 / 10))"
  "retained (d, round_double (6 / 5))"
  by (simp_all add: retained_def double_0_2 double_1_6 double_0_9 double_0_3 double_1_2)

lemma cutoff_examples:
  "float_lt (round_double (1 / 5)) (Finite (3 / 2))"
  "\<not> float_lt (round_double (8 / 5)) (Finite (3 / 2))"
  "float_lt (round_double (9 / 10)) (Finite (3 / 2))"
  "float_lt (round_double (3 / 10)) (Finite (3 / 2))"
  "float_lt (round_double (6 / 5)) (Finite (3 / 2))"
  by (simp_all add: double_0_2 double_1_6 double_0_9 double_0_3 double_1_2)

lemma float_ge_not_lt: "float_ge x y \<Longrightarrow> \<not> float_lt x y"
  by (cases x; cases y) simp_all

lemma str_int_digit: "n < 10 \<Longrightarrow> str_int n = [digit_char n]"
  by (simp add: str_int.simps)

lemma str_int_small: "str_int 1 = ''1''" "str_int 2 = ''2''" "str_int 3 = ''3''"
  by (simp_all add: str_int_digit digit_char_def)

section \<open>The distance filter\<close>

text \<open>
  C2: of the matches \<open>zip(documents, distances)\<close> of a result, the context holds the
  blocks of exactly those whose distance is strictly less than 1.5, in retrieval order;
  no match with a distance \<open>>= 1.5\<close> is among them. For the distances
  \<open>[0.2, 1.6, 0.9]\<close> the first and the third match survive, in that order.
\<close>

theorem context_parts_distance_filter:
  "context_parts (Some \<lparr>documents = Value (docs # more_docs),
                        distances = Value (dists # more_dists), other_keys = k\<rparr>)
     = Inr (map (\<lambda>(i, doc, d). scheme_block i doc d)
              (filter (\<lambda>(i, m). retained m) (enumerate 0 (zip docs dists))))
   \<and> map snd (filter (\<lambda>(i, m). retained m) (enumerate 0 (zip docs dists)))
       = filter (\<lambda>(doc, d). float_lt d (Finite (3 / 2))) (zip docs dists)
   \<and> (\<forall>(doc, d) \<in> set (filter (\<lambda>(doc, d). float_lt d (Finite (3 / 2))) (zip docs dists)).
         \<not> float_ge d (Finite (3 / 2)))
   \<and> context_parts (Some \<lparr>documents = Value [[d1, d2, d3]],
         distances = Value [[round_double (2 / 10), round_double (16 / 10), round_double (9 / 10)]],
         other_keys = k\<rparr>)
       = Inr [scheme_block 0 d1 (round_double (2 / 10)), scheme_block 2 d3 (round_double (9 / 10))]"
proof (intro conjI)
  show "context_parts (Some \<lparr>documents = Value (docs # more_docs),
                        distances = Value (dists # more_dists), other_keys = k\<rparr>)
     = Inr (map (\<lambda>(i, doc, d). scheme_block i doc d)
              (filter (\<lambda>(i, m). retained m) (enumerate 0 (zip docs dists))))"
    by (simp only: context_parts_well_formed collect_parts_eq)
  have "(\<lambda>(doc, d). float_lt d (Finite (3 / 2))) = retained"
    by (auto simp: retained_def)
  then show "map snd (filter (\<lambda>(i, m). retained m) (enumerate 0 (zip docs dists)))
       = filter (\<lambda>(doc, d). float_lt d (Finite (3 / 2))) (zip docs dists)"
    by (simp only: filter_enumerate_snd)
  show "\<forall>(doc, d) \<in> set (filter (\<lambda>(doc, d). float_lt d (Finite (3 / 2))) (zip docs dists)).
         \<not> float_ge d (Finite (3 / 2))"
    by (auto dest: float_ge_not_lt)
  show "context_parts (Some \<lparr>documents = Value [[d1, d2, d3]],
         distances = Value [[round_double (2 / 10), round_double (16 / 10), round_double (9 / 10)]],
         other_keys = k\<rparr>)
       = Inr [scheme_block 0 d1 (round_double (2 / 10)), scheme_block 2 d3 (round_double (9 / 10))]"
    by (simp add: context_parts_well_formed double_0_2 double_1_6 double_0_9 numeral_2_eq_2)
qed

theorem context_parts_distance_filter_witness:
  "context_parts (Some \<lparr>documents = Value [[''a'', ''b'']],
                        distances = Value [[Finite 2, Finite (1 / 2)]], other_keys = True\<rparr>)
     = Inr [scheme_block 1 ''b'' (Finite (1 / 2))]
   \<and> \<not> float_ge (Finite (1 / 2)) (Finite (3 / 2))"
  using context_parts_distance_filter
    [of "[''a'', ''b'']" "[]" "[Finite 2, Finite (1 / 2)]" "[]" True]
  by (simp add: enumerate_eq_zip retained_def)

section \<open>The context blocks\<close>

text \<open>
  C7: the block of a match is the header \<open>--- Relevant Scheme N (Relevance: X.XX) ---\<close>,
  a newline and the document text, where \<open>X.XX\<close> is the float \<open>1.0 - distance\<close> in
  the format \<open>.2f\<close>: for a finite value an optional minus sign, the integer digits, a
  point and two decimals, the number shown being within 0.005 of the value. The blocks
  of the retained matches stand in retrieval order and are joined by two newlines. A
  single match at distance 0.3 gives the header
  \<open>--- Relevant Scheme 1 (Relevance: 0.70) ---\<close>; a match at distance 1.2, above 1.0
  and below the cutoff, is shown with the negative relevance \<open>-0.20\<close>.
\<close>

theorem context_block_format:
  "scheme_block i doc d =
     ''--- Relevant Scheme '' @ str_int (int i + 1) @ '' (Relevance: ''
     @ format_2f (float_sub (Finite 1) d) @ '') ---'' @ [CHR 0x0A] @ doc
   \<and> format_2f (Finite r) =
       (if r < 0 then ''-'' else []) @ str_int (round_half_even (\<bar>r\<bar> * 100) div 100) @ ''.''
       @ [digit_char (round_half_even (\<bar>r\<bar> * 100) mod 100 div 10),
          digit_char (round_half_even (\<bar>r\<bar> * 100) mod 10)]
   \<and> \<bar>of_int (round_half_even (\<bar>r\<bar> * 100)) / 100 - \<bar>r\<bar>\<bar> \<le> 1 / 200
   \<and> context_parts (Some \<lparr>documents = Value (docs # more_docs),
                          distances = Value (dists # more_dists), other_keys = k\<rparr>)
       = Inr (map (\<lambda>(i, doc, d). scheme_block i doc d)
                (filter (\<lambda>(i, doc, d). float_lt d (Finite (3 / 2))) (enumerate 0 (zip docs dists))))
   \<and> context_str (b # bs) = b @ concat (map (\<lambda>x. [CHR 0x0A, CHR 0x0A] @ x) bs)
   \<and> context_parts (Some \<lparr>documents = Value [[doc]],
                          distances = Value [[round_double (3 / 10)]], other_keys = k\<rparr>)
       = Inr [''--- Relevant Scheme 1 (Relevance: 0.70) ---'' @ [CHR 0x0A] @ doc]
   \<and> context_str [''--- Relevant Scheme 1 (Relevance: 0.70) ---'' @ [CHR 0x0A] @ doc]
       = ''--- Relevant Scheme 1 (Relevance: 0.70) ---'' @ [CHR 0x0A] @ doc
   \<and> float_lt (Finite 1) (round_double (12 / 10))
   \<and> float_lt (round_double (12 / 10)) (Finite (3 / 2))
   \<and> scheme_block 0 doc (round_double (12 / 10))
       = ''--- Relevant Scheme 1 (Relevance: -0.20) ---'' @ [CHR 0x0A] @ doc"
proof (intro conjI)
  show "scheme_block i doc d =
     ''--- Relevant Scheme '' @ str_int (int i + 1) @ '' (Relevance: ''
     @ format_2f (float_sub (Finite 1) d) @ '') ---'' @ [CHR 0x0A] @ doc"
    by (simp add: scheme_block_def newline_def)
  show "format_2f (Finite r) =
       (if r < 0 then ''-'' else []) @ str_int (round_half_even (\<bar>r\<bar> * 100) div 100) @ ''.''
       @ [digit_char (round_half_even (\<bar>r\<bar> * 100) mod 100 div 10),
          digit_char (round_half_even (\<bar>r\<bar> * 100) mod 10)]"
    by (rule format_2f_Finite)
  show "\<bar>of_int (round_half_even (\<bar>r\<bar> * 100)) / 100 - \<bar>r\<bar>\<bar> \<le> 1 / 200"
    by (rule two_decimals_close)
  have "(\<lambda>(i, doc, d). float_lt d (Finite (3 / 2))) = (\<lambda>(i :: nat, m). retained m)"
    by (auto simp: retained_def)
  then show "context_parts (Some \<lparr>documents = Value (docs # more_docs),
                          distances = Value (dists # more_dists), other_keys = k\<rparr>)
       = Inr (map (\<lambda>(i, doc, d). scheme_block i doc d)
                (filter (\<lambda>(i, doc, d). float_lt d (Finite (3 / 2))) (enumerate 0 (zip docs dists))))"
    by (simp only: context_parts_well_formed collect_parts_eq)
  show "context_str (b # bs) = b @ concat (map (\<lambda>x. [CHR 0x0A, CHR 0x0A] @ x) bs)"
    by (simp add: context_str_def str_join_Cons newline_def)
  show "context_parts (Some \<lparr>documents = Value [[doc]],
                          distances = Value [[round_double (3 / 10)]], other_keys = k\<rparr>)
       = Inr [''--- Relevant Scheme 1 (Relevance: 0.70) ---'' @ [CHR 0x0A] @ doc]"
    using retained_examples(4) [of doc]
    by (simp add: context_parts_well_formed retained_def scheme_block_def newline_def
        relevance_0_3 str_int_small)
  show "context_str [''--- Relevant Scheme 1 (Relevance: 0.70) ---'' @ [CHR 0x0A] @ doc]
       = ''--- Relevant Scheme 1 (Relevance: 0.70) ---'' @ [CHR 0x0A] @ doc"
    by (simp add: context_str_def)
  show "float_lt (Finite 1) (round_double (12 / 10))"
    by (simp add: double_1_2)
  show "float_lt (round_double (12 / 10)) (Finite (3 / 2))"
    by (simp add: double_1_2)
  show "scheme_block 0 doc (round_double (12 / 10))
       = ''--- Relevant Scheme 1 (Relevance: -0.20) ---'' @ [CHR 0x0A] @ doc"
    by (simp add: scheme_block_def newline_def relevance_1_2 str_int_small)
qed

theorem context_block_format_witness:
  "scheme_block 6 ''Scheme Name: X'' (Finite (1 / 4)) =
     ''--- Relevant Scheme 7 (Relevance: 0.75) ---'' @ [CHR 0x0A] @ ''Scheme Name: X''
   \<and> format_2f (Finite (- 1 / 8)) = ''-0.12''
   \<and> context_str [''a'', ''b''] = ''a'' @ [CHR 0x0A, CHR 0x0A] @ ''b''"
proof -
  have "format_2f (float_sub (Finite 1) (Finite (1 / 4))) = ''0.75''"
    by code_simp
  moreover have "str_int 7 = ''7''"
    by (simp add: str_int_digit digit_char_def)
  moreover have "format_2f (Finite (- 1 / 8)) = ''-0.12''"
    by code_simp
  ultimately show ?thesis
    using context_block_format [of 6 "''Scheme Name: X''" "Finite (1 / 4)" "- 1 / 8"
        "[]" "[]" "[]" "[]" True "''a''" "[''b'']"]
    by simp
qed

section \<open>Printed numbers\<close>

lemma digit_char_value:
  assumes "0 \<le> d" "d < 10"
  shows "of_char (digit_char d) = 48 + d"
proof -
  have "d = 0 \<or> d = 1 \<or> d = 2 \<or> d = 3 \<or> d = 4 \<or> d = 5 \<or> d = 6 \<or> d = 7 \<or> d = 8 \<or> d = 9"
    using assms by arith
  then show ?thesis
    by (auto simp: digit_char_def)
qed

lemma decimal_value_snoc:
  "decimal_value (s @ [c]) = 10 * decimal_value s + (of_char c - 48)"
  by (simp add: decimal_value_def)

lemma decimal_value_str_int: "0 \<le> n \<Longrightarrow> decimal_value (str_int n) = n"
proof (induction n rule: str_int.induct)
  case (1 n)
  show ?case
  proof (cases "n < 10")
    case True
    with "1.prems" show ?thesis
      by (simp add: decimal_value_def digit_char_value str_int_digit)
  next
    case False
    have "0 \<le> n div 10"
      using "1.prems" by simp
    with False "1.IH" have "decimal_value (str_int (n div 10)) = n div 10"
      by simp
    moreover have "of_char (digit_char (n mod 10)) = 48 + n mod 10"
      by (rule digit_char_value) simp_all
    moreover have "str_int n = str_int (n div 10) @ [digit_char (n mod 10)]"
      using False by (simp add: str_int.simps)
    ultimately show ?thesis
      by (simp only: decimal_value_snoc) simp
  qed
qed

section \<open>The numbers in the headers\<close>

lemma retained_positions_set:
  "set (retained_positions ms) = Suc ` {i. i < length ms \<and> retained (ms ! i)}"
  by (auto simp: retained_positions_def)

lemma retained_positions_sorted: "sorted_wrt (<) (retained_positions ms)"
  by (simp add: retained_positions_def sorted_wrt_map sorted_wrt_filter)

lemma collect_parts_positions:
  "collect_parts 0 ms [] =
     map (\<lambda>n. scheme_block (n - 1) (fst (ms ! (n - 1))) (snd (ms ! (n - 1))))
       (retained_positions ms)"
  by (simp add: collect_parts_eq filter_enumerate_nth retained_positions_def comp_def
      case_prod_beta)

lemma consecutive_nth: "consecutive ns \<Longrightarrow> p < length ns \<Longrightarrow> ns ! p = hd ns + p"
proof (induction ns arbitrary: p rule: consecutive.induct)
  case 1
  then show ?case by simp
next
  case (2 x)
  then show ?case by simp
next
  case (3 x y ys)
  then show ?case
    by (cases p) auto
qed

lemma consecutive_interval:
  assumes "consecutive ns" "a \<in> set ns" "c \<in> set ns" "a \<le> b" "b \<le> c"
  shows "b \<in> set ns"
proof -
  obtain pa where pa: "pa < length ns" "ns ! pa = a"
    using assms(2) by (auto simp: in_set_conv_nth)
  obtain pc where pc: "pc < length ns" "ns ! pc = c"
    using assms(3) by (auto simp: in_set_conv_nth)
  have a: "a = hd ns + pa"
    using consecutive_nth [OF assms(1) pa(1)] pa(2) by simp
  have c: "c = hd ns + pc"
    using consecutive_nth [OF assms(1) pc(1)] pc(2) by simp
  define pb where "pb = b - hd ns"
  have "pb < length ns" "b = hd ns + pb"
    using a c assms(4,5) pc(1) by (simp_all add: pb_def)
  then have "ns ! pb = b"
    using consecutive_nth [OF assms(1), of pb] by simp
  with \<open>pb < length ns\<close> show ?thesis
    by (auto simp: in_set_conv_nth)
qed

lemma dropped_before_retained:
  assumes "i < j" "j < length ms" "\<not> retained (ms ! i)" "retained (ms ! j)"
  shows "retained_positions ms \<noteq> [1..<Suc (length (retained_positions ms))]"
proof
  assume "retained_positions ms = [1..<Suc (length (retained_positions ms))]"
  then have "set (retained_positions ms) = set [1..<Suc (length (retained_positions ms))]"
    by (rule arg_cong)
  then have eq: "set (retained_positions ms) = {1..<Suc (length (retained_positions ms))}"
    by (simp only: set_upt)
  have "Suc j \<in> set (retained_positions ms)"
    using assms(2,4) by (auto simp: retained_positions_set)
  then have "Suc j < Suc (length (retained_positions ms))"
    using eq by auto
  then have "Suc i \<in> {1..<Suc (length (retained_positions ms))}"
    using assms(1) by auto
  then have "Suc i \<in> set (retained_positions ms)"
    using eq by blast
  then show False
    using assms(3) by (auto simp: retained_positions_set)
qed

lemma dropped_between_retained:
  assumes "i < j" "j < l" "l < length ms"
    "retained (ms ! i)" "\<not> retained (ms ! j)" "retained (ms ! l)"
  shows "\<not> consecutive (retained_positions ms)"
proof
  assume "consecutive (retained_positions ms)"
  moreover have "Suc i \<in> set (retained_positions ms)" "Suc l \<in> set (retained_positions ms)"
    using assms by (auto simp: retained_positions_set)
  ultimately have "Suc j \<in> set (retained_positions ms)"
    using assms(1,2) by (auto intro: consecutive_interval [where a = "Suc i" and c = "Suc l"])
  then show False
    using assms(5) by (auto simp: retained_positions_set)
qed

text \<open>
  C10, as stated, fails in its consequence: when the matches dropped all come before the
  first retained one, the header numbers are consecutive. For the distances
  \<open>[1.6, 0.2, 0.9]\<close> a dropped match precedes a retained one and the headers are
  numbered 2 and 3.
\<close>

theorem header_numbers_counterexample:
  "\<not> retained ([(''a'', round_double (16 / 10)), (''b'', round_double (2 / 10)),
                 (''c'', round_double (9 / 10))] ! 0)
   \<and> retained ([(''a'', round_double (16 / 10)), (''b'', round_double (2 / 10)),
                (''c'', round_double (9 / 10))] ! 1)
   \<and> retained_positions [(''a'', round_double (16 / 10)), (''b'', round_double (2 / 10)),
                          (''c'', round_double (9 / 10))] = [2, 3]
   \<and> consecutive (retained_positions [(''a'', round_double (16 / 10)),
         (''b'', round_double (2 / 10)), (''c'', round_double (9 / 10))])
   \<and> context_parts (Some \<lparr>documents = Value [[''a'', ''b'', ''c'']],
         distances = Value [[round_double (16 / 10), round_double (2 / 10), round_double (9 / 10)]],
         other_keys = True\<rparr>)
       = Inr [''--- Relevant Scheme 2 (Relevance: 0.80) ---'' @ [CHR 0x0A] @ ''b'',
              ''--- Relevant Scheme 3 (Relevance: 0.10) ---'' @ [CHR 0x0A] @ ''c'']"
proof -
  have pos: "retained_positions [(''a'', round_double (8 / 5)), (''b'', round_double (1 / 5)),
                          (''c'', round_double (9 / 10))] = [2, 3]"
    by (simp add: retained_positions_def upt_rec retained_examples)
  show ?thesis
    by (simp add: pos retained_examples context_parts_well_formed cutoff_examples
        scheme_block_def newline_def relevance_0_2 relevance_0_9 str_int_small)
qed

text \<open>
  C10, amended: the number \<open>N\<close> in a header is the 1-based position of the match in the
  unfiltered list of matches, not its position among the retained ones (the decimal
  number printed reads back as that position, and the numbers increase strictly).
  Whenever a match that is not retained precedes a retained one, the header numbers
  differ from the numbering \<open>1, ..., n\<close> of the retained matches; whenever such a match
  lies between two retained ones, the header numbers are not consecutive. The distances
  \<open>[0.2, 1.6, 0.9]\<close> give the headers numbered 1 and 3.
\<close>

theorem header_numbers_are_positions:
  "collect_parts 0 ms [] =
     map (\<lambda>n. ''--- Relevant Scheme '' @ str_int (int n) @ '' (Relevance: ''
               @ format_2f (float_sub (Finite 1) (snd (ms ! (n - 1)))) @ '') ---''
               @ [CHR 0x0A] @ fst (ms ! (n - 1)))
       (retained_positions ms)
   \<and> context_parts (Some \<lparr>documents = Value (docs # more_docs),
                          distances = Value (dists # more_dists), other_keys = b\<rparr>)
       = Inr (collect_parts 0 (zip docs dists) [])
   \<and> retained_positions ms
       = map Suc (filter (\<lambda>i. float_lt (snd (ms ! i)) (Finite (3 / 2))) [0..<length ms])
   \<and> decimal_value (str_int (int n)) = int n
   \<and> sorted_wrt (<) (retained_positions ms)
   \<and> (i < j \<and> j < length ms \<and> \<not> retained (ms ! i) \<and> retained (ms ! j)
        \<longrightarrow> retained_positions ms \<noteq> [1..<Suc (length (retained_positions ms))])
   \<and> (i < j \<and> j < l \<and> l < length ms
        \<and> retained (ms ! i) \<and> \<not> retained (ms ! j) \<and> retained (ms ! l)
        \<longrightarrow> \<not> consecutive (retained_positions ms))
   \<and> retained_positions [(d1, round_double (2 / 10)), (d2, round_double (16 / 10)),
                          (d3, round_double (9 / 10))] = [1, 3]
   \<and> collect_parts 0 [(d1, round_double (2 / 10)), (d2, round_double (16 / 10)),
                       (d3, round_double (9 / 10))] []
       = [''--- Relevant Scheme 1 (Relevance: 0.80) ---'' @ [CHR 0x0A] @ d1,
          ''--- Relevant Scheme 3 (Relevance: 0.10) ---'' @ [CHR 0x0A] @ d3]"
proof (intro conjI impI)
  have "\<And>n. n \<in> set (retained_positions ms) \<Longrightarrow> int (n - 1) + 1 = int n"
    by (auto simp: retained_positions_set)
  then show "collect_parts 0 ms [] =
     map (\<lambda>n. ''--- Relevant Scheme '' @ str_int (int n) @ '' (Relevance: ''
               @ format_2f (float_sub (Finite 1) (snd (ms ! (n - 1)))) @ '') ---''
               @ [CHR 0x0A] @ fst (ms ! (n - 1)))
       (retained_positions ms)"
    by (simp add: collect_parts_positions scheme_block_def newline_def)
  show "context_parts (Some \<lparr>documents = Value (docs # more_docs),
                          distances = Value (dists # more_dists), other_keys = b\<rparr>)
       = Inr (collect_parts 0 (zip docs dists) [])"
    by (rule context_parts_well_formed)
  show "retained_positions ms
       = map Suc (filter (\<lambda>i. float_lt (snd (ms ! i)) (Finite (3 / 2))) [0..<length ms])"
    by (simp add: retained_positions_def retained_def)
  show "decimal_value (str_int (int n)) = int n"
    by (rule decimal_value_str_int) simp
  show "sorted_wrt (<) (retained_positions ms)"
    by (rule retained_positions_sorted)
  show "retained_positions ms \<noteq> [1..<Suc (length (retained_positions ms))]"
    if "i < j \<and> j < length ms \<and> \<not> retained (ms ! i) \<and> retained (ms ! j)"
    using that dropped_before_retained [of i j ms] by blast
  show "\<not> consecutive (retained_positions ms)"
    if "i < j \<and> j < l \<and> l < length ms
        \<and> retained (ms ! i) \<and> \<not> retained (ms ! j) \<and> retained (ms ! l)"
    using that dropped_between_retained [of i j l ms] by blast
  show "retained_positions [(d1, round_double (2 / 10)), (d2, round_double (16 / 10)),
                          (d3, round_double (9 / 10))] = [1, 3]"
    by (simp add: retained_positions_def upt_rec retained_examples)
  show "collect_parts 0 [(d1, round_double (2 / 10)), (d2, round_double (16 / 10)),
                       (d3, round_double (9 / 10))] []
       = [''--- Relevant Scheme 1 (Relevance: 0.80) ---'' @ [CHR 0x0A] @ d1,
          ''--- Relevant Scheme 3 (Relevance: 0.10) ---'' @ [CHR 0x0A] @ d3]"
    by (simp add: cutoff_examples scheme_block_def newline_def
        relevance_0_2 relevance_0_9 str_int_small)
qed

theorem header_numbers_are_positions_witness:
  "retained_positions [(''a'', Finite (1 / 2)), (''b'', Finite 2), (''c'', Finite 1)] = [1, 3]
   \<and> retained_positions [(''a'', Finite (1 / 2)), (''b'', Finite 2), (''c'', Finite 1)]
       \<noteq> [1..<Suc (length (retained_positions
             [(''a'', Finite (1 / 2)), (''b'', Finite 2), (''c'', Finite 1)]))]
   \<and> \<not> consecutive (retained_positions
         [(''a'', Finite (1 / 2)), (''b'', Finite 2), (''c'', Finite 1)])"
proof -
  have pos: "retained_positions [(''a'', Finite (1 / 2)), (''b'', Finite 2), (''c'', Finite 1)]
      = [1, 3]"
    by (simp add: retained_positions_def upt_rec retained_def)
  have hyps: "(1::nat) < 2 \<and> (2::nat) < length [(''a'', Finite (1 / 2)), (''b'', Finite 2), (''c'', Finite 1)]
      \<and> \<not> retained ([(''a'', Finite (1 / 2)), (''b'', Finite 2), (''c'', Finite 1)] ! 1)
      \<and> retained ([(''a'', Finite (1 / 2)), (''b'', Finite 2), (''c'', Finite 1)] ! 2)"
    by (simp add: retained_def)
  have hyps2: "(0::nat) < 1 \<and> (1::nat) < 2
      \<and> (2::nat) < length [(''a'', Finite (1 / 2)), (''b'', Finite 2), (''c'', Finite 1)]
      \<and> retained ([(''a'', Finite (1 / 2)), (''b'', Finite 2), (''c'', Finite 1)] ! 0)
      \<and> \<not> retained ([(''a'', Finite (1 / 2)), (''b'', Finite 2), (''c'', Finite 1)] ! 1)
      \<and> retained ([(''a'', Finite (1 / 2)), (''b'', Finite 2), (''c'', Finite 1)] ! 2)"
    by (simp add: retained_def)
  have a: "retained_positions [(''a'', Finite (1 / 2)), (''b'', Finite 2), (''c'', Finite 1)]
       \<noteq> [1..<Suc (length (retained_positions
             [(''a'', Finite (1 / 2)), (''b'', Finite 2), (''c'', Finite 1)]))]"
    using header_numbers_are_positions
      [where ms = "[(''a'', Finite (1 / 2)), (''b'', Finite 2), (''c'', Finite 1)]"
         and i = 1 and j = 2] hyps
    by blast
  have b: "\<not> consecutive (retained_positions
         [(''a'', Finite (1 / 2)), (''b'', Finite 2), (''c'', Finite 1)])"
    using header_numbers_are_positions
      [where ms = "[(''a'', Finite (1 / 2)), (''b'', Finite 2), (''c'', Finite 1)]"
         and i = 0 and j = 1 and l = 2] hyps2
    by blast
  show ?thesis
    using pos a b by blast
qed

section \<open>A run of \<open>generate_response\<close>\<close>

lemma run_generate_response_unfold:
  "run_generate_response env q h =
     (case collection_query env [search_query q h] 10 of
        Inl e \<Rightarrow> ([CollectionQuery [search_query q h] 10], Inl e)
      | Inr r \<Rightarrow>
          (case context_parts r of
             Inl e \<Rightarrow> ([CollectionQuery [search_query q h] 10], Inl e)
           | Inr ps \<Rightarrow>
               ([CollectionQuery [search_query q h] 10,
                 gemini_call (full_prompt q (context_str ps) h)
                   (messages (full_prompt q (context_str ps) h) h)],
                ask_gemini env (full_prompt q (context_str ps) h)
                  (messages (full_prompt q (context_str ps) h) h))))"
  by (simp add: run_generate_response_def search_schemes_def n_results_or_default_def Let_def
      split: sum.splits)

lemma run_generate_response_ok:
  assumes "collection_query env [search_query q h] 10 = Inr r" "context_parts r = Inr ps"
  shows "run_generate_response env q h =
     ([CollectionQuery [search_query q h] 10,
       gemini_call (full_prompt q (context_str ps) h)
         (messages (full_prompt q (context_str ps) h) h)],
      ask_gemini env (full_prompt q (context_str ps) h)
        (messages (full_prompt q (context_str ps) h) h))"
  by (simp add: run_generate_response_unfold assms)

lemma append_history_acc:
  "append_history h acc =
     acc @ map (\<lambda>t. Message (if role t = ''user'' then ''user'' else ''model'') [content t]) h"
  by (induction h arbitrary: acc) simp_all

lemma messages_Some: "messages p (Some h) = spec_history_window h @ [Message ''user'' [p]]"
  by (simp add: messages_def append_history_acc spec_history_window_def last_n_def)

lemma messages_None: "messages p None = [Message ''user'' [p]]"
  by (simp add: messages_def)

lemma spec_history_window_empty: "spec_history_window h = [] \<longleftrightarrow> h = []"
  by (cases h) (simp_all add: spec_history_window_def)

lemma gemini_call_window:
  "gemini_call p (w @ [Message ''user'' [p]]) =
     (if w = [] then GenerateContent p else StartChatSendMessage w p)"
  by (simp add: gemini_call_def)

lemma ask_gemini_window:
  "ask_gemini env p (w @ [Message ''user'' [p]]) =
     (case (if w = [] then generate_content env p else send_message env w p) of
        Inr text \<Rightarrow> Inr text
      | Inl e \<Rightarrow> if is_Exception e then Inr (apology @ exc_str e) else Inl e)"
  by (simp add: ask_gemini_def)

section \<open>The history window and the call to Gemini\<close>

text \<open>
  C6: \<open>messages[:-1]\<close>, the history passed to \<open>start_chat\<close>, is the window of the
  specification: the last 6 turns of the history, oldest first, each with the role
  \<open>user\<close> if its role is user and \<open>model\<close> otherwise (6 turns at most, and none
  exactly when there is no history or an empty one). With an empty window the run calls
  \<open>generate_content\<close> with the prompt alone; otherwise it calls \<open>start_chat\<close> with the
  window and sends the prompt as the new message. The answer is the text the call made
  returns.
\<close>

theorem history_window_forwarded:
  "butlast (messages p (Some h)) = spec_history_window h
   \<and> butlast (messages p None) = []
   \<and> last (messages p (Some h)) = Message ''user'' [p]
   \<and> length (spec_history_window h) = min 6 (length h)
   \<and> (spec_history_window h = [] \<longleftrightarrow> h = [])
   \<and> (collection_query env [search_query q None] 10 = Inr r \<and> context_parts r = Inr ps
        \<longrightarrow> fst (run_generate_response env q None)
              = [CollectionQuery [search_query q None] 10,
                 GenerateContent (full_prompt q (context_str ps) None)])
   \<and> (collection_query env [search_query q (Some h)] 10 = Inr r \<and> context_parts r = Inr ps
        \<longrightarrow> fst (run_generate_response env q (Some h))
              = [CollectionQuery [search_query q (Some h)] 10,
                 if spec_history_window h = []
                 then GenerateContent (full_prompt q (context_str ps) (Some h))
                 else StartChatSendMessage (spec_history_window h)
                        (full_prompt q (context_str ps) (Some h))])
   \<and> (collection_query env [search_query q (Some h)] 10 = Inr r \<and> context_parts r = Inr ps
        \<and> (if spec_history_window h = []
            then generate_content env (full_prompt q (context_str ps) (Some h))
            else send_message env (spec_history_window h)
                   (full_prompt q (context_str ps) (Some h))) = Inr reply
        \<longrightarrow> generate_response env q (Some h) = Inr reply)"
proof (intro conjI impI)
  show "butlast (messages p (Some h)) = spec_history_window h"
    by (simp add: messages_Some)
  show "butlast (messages p None) = []"
    by (simp add: messages_None)
  show "last (messages p (Some h)) = Message ''user'' [p]"
    by (simp add: messages_Some)
  show "length (spec_history_window h) = min 6 (length h)"
    by (simp add: spec_history_window_def)
  show "spec_history_window h = [] \<longleftrightarrow> h = []"
    by (rule spec_history_window_empty)
  show "fst (run_generate_response env q None)
              = [CollectionQuery [search_query q None] 10,
                 GenerateContent (full_prompt q (context_str ps) None)]"
    if "collection_query env [search_query q None] 10 = Inr r \<and> context_parts r = Inr ps"
    using that by (simp add: run_generate_response_ok messages_None gemini_call_def)
  show "fst (run_generate_response env q (Some h))
              = [CollectionQuery [search_query q (Some h)] 10,
                 if spec_history_window h = []
                 then GenerateContent (full_prompt q (context_str ps) (Some h))
                 else StartChatSendMessage (spec_history_window h)
                        (full_prompt q (context_str ps) (Some h))]"
    if "collection_query env [search_query q (Some h)] 10 = Inr r \<and> context_parts r = Inr ps"
    using that by (simp add: run_generate_response_ok messages_Some gemini_call_window)
  show "generate_response env q (Some h) = Inr reply"
    if "collection_query env [search_query q (Some h)] 10 = Inr r \<and> context_parts r = Inr ps
        \<and> (if spec_history_window h = []
            then generate_content env (full_prompt q (context_str ps) (Some h))
            else send_message env (spec_history_window h)
                   (full_prompt q (context_str ps) (Some h))) = Inr reply"
    using that
    by (simp add: generate_response_def run_generate_response_ok messages_Some
        ask_gemini_window)
qed

theorem history_window_forwarded_witness:
  "butlast (messages ''prompt''
      (Some [\<lparr>role = ''user'', content = ''pension''\<rparr>,
             \<lparr>role = ''assistant'', content = ''There are two schemes.''\<rparr>]))
     = [Message ''user'' [''pension''], Message ''model'' [''There are two schemes.'']]
   \<and> generate_response
        \<lparr>collection_query = (\<lambda>texts n. Inr None),
         generate_content = (\<lambda>prompt. Inr ''single-turn reply''),
         send_message = (\<lambda>window prompt. Inr ''multi-turn reply'')\<rparr>
        ''where do I apply?''
        (Some [\<lparr>role = ''user'', content = ''pension''\<rparr>,
               \<lparr>role = ''assistant'', content = ''There are two schemes.''\<rparr>])
     = Inr ''multi-turn reply''"
  using history_window_forwarded
    [where p = "''prompt''"
       and h = "[\<lparr>role = ''user'', content = ''pension''\<rparr>,
                 \<lparr>role = ''assistant'', content = ''There are two schemes.''\<rparr>]"
       and env = "\<lparr>collection_query = (\<lambda>texts n. Inr None),
                   generate_content = (\<lambda>prompt. Inr ''single-turn reply''),
                   send_message = (\<lambda>window prompt. Inr ''multi-turn reply'')\<rparr>"
       and q = "''where do I apply?''" and r = None and ps = "[]"
       and reply = "''multi-turn reply''"]
  by (simp add: context_parts_def spec_history_window_def)

section \<open>Errors of the call to Gemini\<close>

text \<open>
  C5, as stated, fails: the handler is \<open>except Exception\<close>, so an exception of the call
  to Gemini that is no instance of \<open>Exception\<close>, here a \<open>KeyboardInterrupt\<close> (whose
  \<open>str\<close> is empty) raised while the call is waiting, is not caught: it leaves
  \<open>generate_response\<close>, and no apology is returned.
\<close>

theorem gemini_error_counterexample:
  "generate_response
     \<lparr>collection_query = (\<lambda>texts n. Inr None),
      generate_content = (\<lambda>prompt. Inl (PyBaseException [])),
      send_message = (\<lambda>window prompt. Inr ''multi-turn reply'')\<rparr>
     ''pension for farmers'' None
   = Inl (PyBaseException [])
   \<and> generate_response
     \<lparr>collection_query = (\<lambda>texts n. Inr None),
      generate_content = (\<lambda>prompt. Inl (PyBaseException [])),
      send_message = (\<lambda>window prompt. Inr ''multi-turn reply'')\<rparr>
     ''pension for farmers'' None
   \<noteq> Inr (''I apologize, but I encountered an error while processing your request: ''
           @ exc_str (PyBaseException []))"
  by (simp add: generate_response_def run_generate_response_unfold context_parts_def
      messages_None ask_gemini_def)

text \<open>
  C5, amended: once the search has returned and the context is built, the call made to
  Gemini (\<open>generate_content\<close> for a single message, \<open>start_chat\<close> and \<open>send_message\<close>
  otherwise) decides the outcome. If it raises an exception \<open>e\<close> that is an instance of
  \<open>Exception\<close>, \<open>generate_response\<close> catches it and returns
  \<open>I apologize, but I encountered an error while processing your request: \<close> followed by
  \<open>str(e)\<close>, never re-raising it; if it returns a reply, the reply is returned
  unchanged. An exception that is no instance of \<open>Exception\<close> is not caught.
\<close>

theorem gemini_exception_caught:
  assumes "collection_query env [search_query q h] 10 = Inr r"
    and "context_parts r = Inr ps"
    and "prompt = full_prompt q (context_str ps) h"
    and "outcome = (if length (messages prompt h) = 1 then generate_content env prompt
                    else send_message env (butlast (messages prompt h)) prompt)"
  shows "(outcome = Inl e \<and> is_Exception e \<longrightarrow>
            generate_response env q h =
              Inr (''I apologize, but I encountered an error while processing your request: ''
                   @ exc_str e))
       \<and> (outcome = Inr reply \<longrightarrow> generate_response env q h = Inr reply)
       \<and> (outcome = Inl e \<and> \<not> is_Exception e \<longrightarrow> generate_response env q h = Inl e)"
proof -
  have run: "generate_response env q h =
      (case outcome of
         Inr text \<Rightarrow> Inr text
       | Inl e \<Rightarrow> if is_Exception e then Inr (apology @ exc_str e) else Inl e)"
    using assms
    by (simp add: generate_response_def run_generate_response_ok ask_gemini_def)
  show ?thesis
    by (simp add: run apology_def)
qed

theorem gemini_exception_caught_witness:
  "generate_response
     \<lparr>collection_query = (\<lambda>texts n. Inr None),
      generate_content = (\<lambda>prompt. Inl (PyException ''deadline exceeded'')),
      send_message = (\<lambda>window prompt. Inr ''multi-turn reply'')\<rparr>
     ''pension for farmers'' None
   = Inr ''I apologize, but I encountered an error while processing your request: deadline exceeded''
   \<and> generate_response
     \<lparr>collection_query = (\<lambda>texts n. Inr None),
      generate_content = (\<lambda>prompt. Inr ''There are two schemes.''),
      send_message = (\<lambda>window prompt. Inr ''multi-turn reply'')\<rparr>
     ''pension for farmers'' None
   = Inr ''There are two schemes.''"
proof -
  have a: "generate_response
     \<lparr>collection_query = (\<lambda>texts n. Inr None),
      generate_content = (\<lambda>prompt. Inl (PyException ''deadline exceeded'')),
      send_message = (\<lambda>window prompt. Inr ''multi-turn reply'')\<rparr>
     ''pension for farmers'' None
   = Inr ''I apologize, but I encountered an error while processing your request: deadline exceeded''"
    using gemini_exception_caught
      [where env = "\<lparr>collection_query = (\<lambda>texts n. Inr None),
          generate_content = (\<lambda>prompt. Inl (PyException ''deadline exceeded'')),
          send_message = (\<lambda>window prompt. Inr ''multi-turn reply'')\<rparr>"
         and q = "''pension for farmers''" and h = None and r = None and ps = "[]"
         and prompt = "full_prompt ''pension for farmers'' (context_str []) None"
         and outcome = "Inl (PyException ''deadline exceeded'')"
         and e = "PyException ''deadline exceeded''"]
    by (simp add: context_parts_def messages_None)
  have b: "generate_response
     \<lparr>collection_query = (\<lambda>texts n. Inr None),
      generate_content = (\<lambda>prompt. Inr ''There are two schemes.''),
      send_message = (\<lambda>window prompt. Inr ''multi-turn reply'')\<rparr>
     ''pension for farmers'' None
   = Inr ''There are two schemes.''"
    using gemini_exception_caught
      [where env = "\<lparr>collection_query = (\<lambda>texts n. Inr None),
          generate_content = (\<lambda>prompt. Inr ''There are two schemes.''),
          send_message = (\<lambda>window prompt. Inr ''multi-turn reply'')\<rparr>"
         and q = "''pension for farmers''" and h = None and r = None and ps = "[]"
         and prompt = "full_prompt ''pension for farmers'' (context_str []) None"
         and outcome = "Inr ''There are two schemes.''"
         and reply = "''There are two schemes.''"]
    by (simp add: context_parts_def messages_None)
  show ?thesis
    using a b by blast
qed

section \<open>The context without relevant matches\<close>

lemma context_parts_empty_iff:
  "context_parts (Some \<lparr>documents = Value (docs # more_docs),
                        distances = Value (dists # more_dists), other_keys = b\<rparr>) = Inr []
   \<longleftrightarrow> filter (\<lambda>(doc, d). float_lt d (Finite (3 / 2))) (zip docs dists) = []"
proof -
  have "(\<lambda>(doc, d). float_lt d (Finite (3 / 2))) = retained"
    by (auto simp: retained_def)
  moreover have "filter (\<lambda>(j, m). retained m) (enumerate 0 (zip docs dists)) = []
      \<longleftrightarrow> filter retained (zip docs dists) = []"
    using filter_enumerate_snd [of retained 0 "zip docs dists"]
    by (metis map_is_Nil_conv)
  ultimately show ?thesis
    by (simp add: context_parts_well_formed collect_parts_eq)
qed

text \<open>
  C3: when no match survives the distance filter (and likewise when the result holds no
  matches at all), the list of context parts is empty, the context is exactly the
  sentinel \<open>No highly relevant schemes found in the database for this query.\<close>, which is
  not the empty string, and the prompt sent to Gemini holds the sentinel between the
  instructions and the question.
\<close>

theorem no_relevant_schemes_context:
  "(filter (\<lambda>(doc, d). float_lt d (Finite (3 / 2))) (zip docs dists) = []
      \<longrightarrow> context_parts (Some \<lparr>documents = Value (docs # more_docs),
             distances = Value (dists # more_dists), other_keys = b\<rparr>) = Inr [])
   \<and> context_str [] = ''No highly relevant schemes found in the database for this query.''
   \<and> context_str [] \<noteq> []
   \<and> (collection_query env [search_query q h] 10 = Inr r \<and> context_parts r = Inr []
        \<longrightarrow> fst (run_generate_response env q h)
              = [CollectionQuery [search_query q h] 10,
                 gemini_call
                   (system_prompt @ [CHR 0x0A, CHR 0x0A]
                    @ ''No highly relevant schemes found in the database for this query.''
                    @ [CHR 0x0A, CHR 0x0A] @ ''---'' @ [CHR 0x0A, CHR 0x0A]
                    @ ''User Question: '' @ q @ context_note h @ [CHR 0x0A, CHR 0x0A]
                    @ ''Please answer based ONLY on the schemes provided in the context above.'')
                   (messages (full_prompt q (context_str []) h) h)])"
proof (intro conjI impI)
  show "context_parts (Some \<lparr>documents = Value (docs # more_docs),
             distances = Value (dists # more_dists), other_keys = b\<rparr>) = Inr []"
    if "filter (\<lambda>(doc, d). float_lt d (Finite (3 / 2))) (zip docs dists) = []"
    using that by (simp only: context_parts_empty_iff)
  show "context_str [] = ''No highly relevant schemes found in the database for this query.''"
    by (simp add: context_str_def no_relevant_schemes_def)
  show "context_str [] \<noteq> []"
    by (simp add: context_str_def no_relevant_schemes_def)
  show "fst (run_generate_response env q h)
              = [CollectionQuery [search_query q h] 10,
                 gemini_call
                   (system_prompt @ [CHR 0x0A, CHR 0x0A]
                    @ ''No highly relevant schemes found in the database for this query.''
                    @ [CHR 0x0A, CHR 0x0A] @ ''---'' @ [CHR 0x0A, CHR 0x0A]
                    @ ''User Question: '' @ q @ context_note h @ [CHR 0x0A, CHR 0x0A]
                    @ ''Please answer based ONLY on the schemes provided in the context above.'')
                   (messages (full_prompt q (context_str []) h) h)]"
    if "collection_query env [search_query q h] 10 = Inr r \<and> context_parts r = Inr []"
  proof -
    have "full_prompt q (context_str []) h =
        system_prompt @ [CHR 0x0A, CHR 0x0A]
        @ ''No highly relevant schemes found in the database for this query.''
        @ [CHR 0x0A, CHR 0x0A] @ ''---'' @ [CHR 0x0A, CHR 0x0A]
        @ ''User Question: '' @ q @ context_note h @ [CHR 0x0A, CHR 0x0A]
        @ ''Please answer based ONLY on the schemes provided in the context above.''"
      by (simp add: full_prompt_def context_str_def no_relevant_schemes_def newline_def)
    then show ?thesis
      using that run_generate_response_ok [of env q h r "[]"] by simp
  qed
qed

theorem no_relevant_schemes_context_witness:
  "context_parts (Some \<lparr>documents = Value [[''a'', ''b'']],
                        distances = Value [[Finite 2, Finite (7 / 4)]], other_keys = True\<rparr>)
     = Inr []
   \<and> fst (run_generate_response
        \<lparr>collection_query = (\<lambda>texts n. Inr (Some \<lparr>documents = Value [[''a'', ''b'']],
             distances = Value [[Finite 2, Finite (7 / 4)]], other_keys = True\<rparr>)),
         generate_content = (\<lambda>prompt. Inr ''reply''),
         send_message = (\<lambda>window prompt. Inr ''reply'')\<rparr>
        ''pension'' None)
     = [CollectionQuery [''pension''] 10,
        GenerateContent
          (system_prompt @ [CHR 0x0A, CHR 0x0A]
           @ ''No highly relevant schemes found in the database for this query.''
           @ [CHR 0x0A, CHR 0x0A] @ ''---'' @ [CHR 0x0A, CHR 0x0A]
           @ ''User Question: pension'' @ [CHR 0x0A, CHR 0x0A]
           @ ''Please answer based ONLY on the schemes provided in the context above.'')]"
proof -
  have parts: "context_parts (Some \<lparr>documents = Value [[''a'', ''b'']],
                        distances = Value [[Finite 2, Finite (7 / 4)]], other_keys = True\<rparr>)
     = Inr []"
    using no_relevant_schemes_context
      [where docs = "[''a'', ''b'']" and dists = "[Finite 2, Finite (7 / 4)]"
         and more_docs = "[]" and more_dists = "[]" and b = True]
    by simp
  show ?thesis
    using parts no_relevant_schemes_context
      [where env = "\<lparr>collection_query = (\<lambda>texts n. Inr (Some \<lparr>documents = Value [[''a'', ''b'']],
             distances = Value [[Finite 2, Finite (7 / 4)]], other_keys = True\<rparr>)),
         generate_content = (\<lambda>prompt. Inr ''reply''),
         send_message = (\<lambda>window prompt. Inr ''reply'')\<rparr>"
         and q = "''pension''" and h = None
         and r = "Some \<lparr>documents = Value [[''a'', ''b'']],
             distances = Value [[Finite 2, Finite (7 / 4)]], other_keys = True\<rparr>"]
    by (simp add: search_query_def messages_None gemini_call_def context_note_def)
qed

section \<open>Failures of the search\<close>

lemma degraded_result_parts: "degraded_result r \<Longrightarrow> context_parts r = Inr []"
  by (auto simp: degraded_result_def entry_falsy_def context_parts_def dict_truthy_def
      split: option.splits entry.splits list.splits if_splits)

text \<open>
  C4, as stated, fails: \<open>search_schemes\<close> and \<open>generate_response\<close> have no handler
  around \<open>collection.query\<close>, so an exception of the index leaves
  \<open>generate_response\<close>: the only call made is the search, and no text is returned.
\<close>

theorem search_failure_counterexample:
  "generate_response
     \<lparr>collection_query = (\<lambda>texts n. Inl (PyException ''index unreachable'')),
      generate_content = (\<lambda>prompt. Inr ''reply''),
      send_message = (\<lambda>window prompt. Inr ''reply'')\<rparr>
     ''pension'' None
   = Inl (PyException ''index unreachable'')
   \<and> fst (run_generate_response
     \<lparr>collection_query = (\<lambda>texts n. Inl (PyException ''index unreachable'')),
      generate_content = (\<lambda>prompt. Inr ''reply''),
      send_message = (\<lambda>window prompt. Inr ''reply'')\<rparr>
     ''pension'' None)
   = [CollectionQuery [''pension''] 10]"
  by (simp add: generate_response_def run_generate_response_unfold search_query_def)

text \<open>
  C4, amended: if the search returns \<open>None\<close>, an empty result, or a result that has both
  the \<open>documents\<close> and the \<open>distances\<close> field with one of them \<open>None\<close> or empty, the
  match sequence is empty, the context is the sentinel, and the run goes on to the call
  to Gemini with the sentinel prompt: \<open>generate_response\<close> returns the reply, or the
  apology when that call raises an instance of \<open>Exception\<close>. An exception raised by
  the search call is not caught: it leaves \<open>generate_response\<close> before any call to
  Gemini.
\<close>

theorem search_result_degrades:
  "degraded_result None
   \<and> degraded_result (Some \<lparr>documents = Missing, distances = Missing, other_keys = False\<rparr>)
   \<and> (x \<noteq> Missing \<and> y \<noteq> Missing
        \<and> (x = PyNone \<or> x = Value [] \<or> y = PyNone \<or> y = Value [])
        \<longrightarrow> degraded_result (Some \<lparr>documents = x, distances = y, other_keys = b\<rparr>))
   \<and> (collection_query env [search_query q h] 10 = Inr r \<and> degraded_result r
        \<longrightarrow> context_parts r = Inr []
            \<and> context_str [] = ''No highly relevant schemes found in the database for this query.''
            \<and> run_generate_response env q h
                = ([CollectionQuery [search_query q h] 10,
                    gemini_call (full_prompt q (context_str []) h)
                      (messages (full_prompt q (context_str []) h) h)],
                   ask_gemini env (full_prompt q (context_str []) h)
                     (messages (full_prompt q (context_str []) h) h))
            \<and> ((if length (messages (full_prompt q (context_str []) h) h) = 1
                 then generate_content env (full_prompt q (context_str []) h)
                 else send_message env (butlast (messages (full_prompt q (context_str []) h) h))
                        (full_prompt q (context_str []) h)) = Inr reply
                \<longrightarrow> generate_response env q h = Inr reply)
            \<and> ((if length (messages (full_prompt q (context_str []) h) h) = 1
                 then generate_content env (full_prompt q (context_str []) h)
                 else send_message env (butlast (messages (full_prompt q (context_str []) h) h))
                        (full_prompt q (context_str []) h)) = Inl e
                \<and> is_Exception e
                \<longrightarrow> generate_response env q h =
                      Inr (''I apologize, but I encountered an error while processing your request: ''
                           @ exc_str e)))
   \<and> (collection_query env [search_query q h] 10 = Inl e'
        \<longrightarrow> run_generate_response env q h = ([CollectionQuery [search_query q h] 10], Inl e')
            \<and> generate_response env q h = Inl e')"
proof (intro conjI impI)
  show "degraded_result None"
    "degraded_result (Some \<lparr>documents = Missing, distances = Missing, other_keys = False\<rparr>)"
    by (simp_all add: degraded_result_def)
  show "degraded_result (Some \<lparr>documents = x, distances = y, other_keys = b\<rparr>)"
    if "x \<noteq> Missing \<and> y \<noteq> Missing
        \<and> (x = PyNone \<or> x = Value [] \<or> y = PyNone \<or> y = Value [])"
    using that by (auto simp: degraded_result_def entry_falsy_def)
  show "context_str [] = ''No highly relevant schemes found in the database for this query.''"
    by (simp add: context_str_def no_relevant_schemes_def)
next
  assume a: "collection_query env [search_query q h] 10 = Inr r \<and> degraded_result r"
  then show parts: "context_parts r = Inr []"
    by (simp add: degraded_result_parts)
  show run: "run_generate_response env q h
                = ([CollectionQuery [search_query q h] 10,
                    gemini_call (full_prompt q (context_str []) h)
                      (messages (full_prompt q (context_str []) h) h)],
                   ask_gemini env (full_prompt q (context_str []) h)
                     (messages (full_prompt q (context_str []) h) h))"
    using a parts by (simp add: run_generate_response_ok)
  show "generate_response env q h = Inr reply"
    if "(if length (messages (full_prompt q (context_str []) h) h) = 1
         then generate_content env (full_prompt q (context_str []) h)
         else send_message env (butlast (messages (full_prompt q (context_str []) h) h))
                (full_prompt q (context_str []) h)) = Inr reply"
    using that by (simp add: generate_response_def run ask_gemini_def)
  show "generate_response env q h =
          Inr (''I apologize, but I encountered an error while processing your request: ''
               @ exc_str e)"
    if "(if length (messages (full_prompt q (context_str []) h) h) = 1
         then generate_content env (full_prompt q (context_str []) h)
         else send_message env (butlast (messages (full_prompt q (context_str []) h) h))
                (full_prompt q (context_str []) h)) = Inl e
        \<and> is_Exception e"
    using that by (simp add: generate_response_def run ask_gemini_def apology_def)
next
  assume "collection_query env [search_query q h] 10 = Inl e'"
  then show "run_generate_response env q h = ([CollectionQuery [search_query q h] 10], Inl e')"
    "generate_response env q h = Inl e'"
    by (simp_all add: generate_response_def run_generate_response_unfold)
qed

theorem search_result_degrades_witness:
  "context_parts (Some \<lparr>documents = PyNone, distances = PyNone, other_keys = True\<rparr>) = Inr []
   \<and> generate_response
        \<lparr>collection_query = (\<lambda>texts n. Inr (Some \<lparr>documents = PyNone, distances = PyNone,
             other_keys = True\<rparr>)),
         generate_content = (\<lambda>prompt. Inr ''reply''),
         send_message = (\<lambda>window prompt. Inr ''reply'')\<rparr>
        ''pension'' None
      = Inr ''reply''
   \<and> generate_response
        \<lparr>collection_query = (\<lambda>texts n. Inl (PyException ''index unreachable'')),
         generate_content = (\<lambda>prompt. Inr ''reply''),
         send_message = (\<lambda>window prompt. Inr ''reply'')\<rparr>
        ''pension'' None
      = Inl (PyException ''index unreachable'')"
proof -
  let ?r = "Some \<lparr>documents = PyNone :: string list list entry,
    distances = PyNone :: pyfloat list list entry, other_keys = True\<rparr>"
  let ?env = "\<lparr>collection_query = (\<lambda>texts n. Inr ?r),
    generate_content = (\<lambda>prompt. Inr ''reply''),
    send_message = (\<lambda>window prompt. Inr ''reply'')\<rparr>"
  let ?down = "\<lparr>collection_query = (\<lambda>texts n. Inl (PyException ''index unreachable'')),
    generate_content = (\<lambda>prompt. Inr ''reply''),
    send_message = (\<lambda>window prompt. Inr ''reply'')\<rparr>"
  have deg: "degraded_result ?r"
    using search_result_degrades
      [where x = "PyNone :: string list list entry" and y = "PyNone :: pyfloat list list entry"
         and b = True]
    by simp
  have hyp: "collection_query ?env [search_query ''pension'' None] 10 = Inr ?r \<and> degraded_result ?r"
    using deg by simp
  have out: "(if length (messages (full_prompt ''pension'' (context_str []) None) None) = 1
         then generate_content ?env (full_prompt ''pension'' (context_str []) None)
         else send_message ?env
                (butlast (messages (full_prompt ''pension'' (context_str []) None) None))
                (full_prompt ''pension'' (context_str []) None)) = Inr ''reply''"
    by (simp add: messages_None)
  have a: "context_parts ?r = Inr [] \<and> generate_response ?env ''pension'' None = Inr ''reply''"
    using hyp out search_result_degrades
      [where env = ?env and q = "''pension''" and h = None and r = ?r
         and reply = "''reply''"]
    by blast
  have down: "collection_query ?down [search_query ''pension'' None] 10
      = Inl (PyException ''index unreachable'')"
    by simp
  have b: "generate_response ?down ''pension'' None = Inl (PyException ''index unreachable'')"
    using down search_result_degrades
      [where env = ?down and q = "''pension''" and h = None
         and e' = "PyException ''index unreachable''"]
    by blast
  show ?thesis
    using a b by blast
qed

section \<open>The number of documents requested\<close>

lemma length_collect_parts: "length (collect_parts 0 ms []) \<le> length ms"
proof -
  have "length (filter (\<lambda>(j, m). retained m) (enumerate 0 ms)) \<le> length (enumerate 0 ms)"
    by (rule length_filter_le)
  then show ?thesis
    by (simp add: collect_parts_eq)
qed

lemma length_context_parts:
  assumes "context_parts r = Inr ps" "at_most_documents k r"
  shows "length ps \<le> k"
proof (cases "\<exists>docs md dists mdi b. r = Some \<lparr>documents = Value (docs # md),
    distances = Value (dists # mdi), other_keys = b\<rparr>")
  case True
  then obtain docs md dists mdi b where r: "r = Some \<lparr>documents = Value (docs # md),
    distances = Value (dists # mdi), other_keys = b\<rparr>"
    by blast
  have ps: "ps = collect_parts 0 (zip docs dists) []"
    using assms(1) by (simp add: r context_parts_well_formed)
  have "length (collect_parts 0 (zip docs dists) []) \<le> length (zip docs dists)"
    by (rule length_collect_parts)
  moreover have "length docs \<le> k"
    using assms(2) by (simp add: r at_most_documents_def)
  ultimately show ?thesis
    by (simp add: ps)
next
  case False
  have "ps = []"
  proof (cases r)
    case None
    then show ?thesis
      using assms(1) by (simp add: context_parts_def)
  next
    case (Some d)
    obtain x y z where d: "d = \<lparr>documents = x, distances = y, other_keys = z\<rparr>"
      by (cases d) simp
    show ?thesis
      using assms(1) False
      by (auto simp: Some d context_parts_def split: if_splits entry.splits list.splits)
  qed
  then show ?thesis
    by simp
qed

text \<open>
  C8, as stated, fails: the default of \<open>n_results\<close> in \<open>search_schemes\<close> is 5, not 10,
  so a call without it asks the index for 5 documents. And nothing in
  \<open>generate_response\<close> cuts the result to 10 documents: an index that answered with
  11 relevant matches would give 11 context parts.
\<close>

theorem n_results_default_counterexample:
  "n_results_or_default None = 5
   \<and> n_results_or_default None \<noteq> 10
   \<and> fst (search_schemes
        \<lparr>collection_query = (\<lambda>texts n. Inr None),
         generate_content = (\<lambda>prompt. Inr ''reply''),
         send_message = (\<lambda>window prompt. Inr ''reply'')\<rparr>
        ''pension'' None)
      = [CollectionQuery [''pension''] 5]
   \<and> (case context_parts (Some \<lparr>documents = Value [replicate 11 ''a scheme''],
             distances = Value [replicate 11 (Finite (1 / 4))], other_keys = True\<rparr>) of
         Inl e \<Rightarrow> False
       | Inr ps \<Rightarrow> length ps = 11)"
proof -
  have "filter (\<lambda>(j, m). retained m) (enumerate 0 (replicate 11 (''a scheme'', Finite (1 / 4))))
      = enumerate 0 (replicate 11 (''a scheme'', Finite (1 / 4)))"
    by (rule filter_True) (auto simp: enumerate_eq_zip retained_def dest: set_zip_rightD)
  then have "length (collect_parts 0 (replicate 11 (''a scheme'', Finite (1 / 4))) []) = 11"
    by (simp only: collect_parts_eq length_map length_enumerate length_replicate)
  then show ?thesis
    by (simp add: n_results_or_default_def search_schemes_def context_parts_well_formed
        zip_replicate)
qed

text \<open>
  C8, amended: \<open>search_schemes(query, n_results)\<close> asks the index for \<open>n_results\<close>
  documents, 5 when the argument is omitted; \<open>generate_response\<close> always calls it with
  \<open>n_results=10\<close>. Provided the index answers with at most the 10 documents requested,
  the number of context parts after filtering is between 0 and 10; in general it is at
  most the number of matches returned.
\<close>

theorem search_schemes_n_results:
  "search_schemes env query None = ([CollectionQuery [query] 5], collection_query env [query] 5)
   \<and> search_schemes env query (Some k)
       = ([CollectionQuery [query] k], collection_query env [query] k)
   \<and> hd (fst (run_generate_response env q h)) = CollectionQuery [search_query q h] 10
   \<and> (collection_query env [search_query q h] 10 = Inr r \<and> at_most_documents 10 r
        \<and> context_parts r = Inr ps
        \<longrightarrow> length ps \<in> {0..10})
   \<and> (context_parts (Some \<lparr>documents = Value (docs # more_docs),
          distances = Value (dists # more_dists), other_keys = b\<rparr>) = Inr ps
        \<longrightarrow> length ps \<le> min (length docs) (length dists))"
proof (intro conjI impI)
  show "search_schemes env query None
      = ([CollectionQuery [query] 5], collection_query env [query] 5)"
    by (simp add: search_schemes_def n_results_or_default_def)
  show "search_schemes env query (Some k)
      = ([CollectionQuery [query] k], collection_query env [query] k)"
    by (simp add: search_schemes_def n_results_or_default_def)
  show "hd (fst (run_generate_response env q h)) = CollectionQuery [search_query q h] 10"
    by (simp add: run_generate_response_unfold split: sum.splits)
  show "length ps \<in> {0..10}"
    if "collection_query env [search_query q h] 10 = Inr r \<and> at_most_documents 10 r
        \<and> context_parts r = Inr ps"
    using that length_context_parts [of r ps 10] by simp
  show "length ps \<le> min (length docs) (length dists)"
    if "context_parts (Some \<lparr>documents = Value (docs # more_docs),
          distances = Value (dists # more_dists), other_keys = b\<rparr>) = Inr ps"
  proof -
    have ps: "ps = collect_parts 0 (zip docs dists) []"
      using that by (simp add: context_parts_well_formed)
    have "length (collect_parts 0 (zip docs dists) []) \<le> length (zip docs dists)"
      by (rule length_collect_parts)
    then show ?thesis
      by (simp add: ps)
  qed
qed

theorem search_schemes_n_results_witness:
  "length [scheme_block 1 ''b'' (Finite (1 / 2))] \<in> {0..10}
   \<and> length [scheme_block 1 ''b'' (Finite (1 / 2))] \<le> min (length [''a'', ''b'']) (length [Finite 2, Finite (1 / 2)])"
proof -
  have parts: "context_parts (Some \<lparr>documents = Value [[''a'', ''b'']],
      distances = Value [[Finite 2, Finite (1 / 2)]], other_keys = True\<rparr>)
      = Inr [scheme_block 1 ''b'' (Finite (1 / 2))]"
    by (simp add: context_parts_well_formed)
  have small: "at_most_documents 10 (Some \<lparr>documents = Value [[''a'', ''b'']],
      distances = Value [[Finite 2, Finite (1 / 2)]], other_keys = True\<rparr>)"
    by (simp add: at_most_documents_def)
  show ?thesis
    using parts small search_schemes_n_results
      [where env = "\<lparr>collection_query = (\<lambda>texts n. Inr (Some \<lparr>documents = Value [[''a'', ''b'']],
             distances = Value [[Finite 2, Finite (1 / 2)]], other_keys = True\<rparr>)),
           generate_content = (\<lambda>prompt. Inr ''reply''),
           send_message = (\<lambda>window prompt. Inr ''reply'')\<rparr>"
         and q = "''pension''" and h = None
         and r = "Some \<lparr>documents = Value [[''a'', ''b'']],
             distances = Value [[Finite 2, Finite (1 / 2)]], other_keys = True\<rparr>"
         and ps = "[scheme_block 1 ''b'' (Finite (1 / 2))]"
         and docs = "[''a'', ''b'']" and dists = "[Finite 2, Finite (1 / 2)]"
         and more_docs = "[]" and more_dists = "[]" and b = True]
    by simp
qed

section \<open>Determinism of the prompt\<close>

text \<open>
  C9: the calls of a run are determined by the query, the history and the answer of the
  index; two runs in which the index answers alike make the same calls, whatever else
  differs between them. With no history (or an empty one) and the same matches, both
  runs send the same single prompt text to Gemini, with an empty history window.
\<close>

theorem prompt_assembly_deterministic:
  "(collection_query env1 [search_query q h] 10 = collection_query env2 [search_query q h] 10
      \<longrightarrow> fst (run_generate_response env1 q h) = fst (run_generate_response env2 q h))
   \<and> ((h = None \<or> h = Some []) \<and> collection_query env1 [q] 10 = Inr r
        \<and> collection_query env2 [q] 10 = Inr r \<and> context_parts r = Inr ps
      \<longrightarrow> fst (run_generate_response env1 q h)
            = [CollectionQuery [q] 10, GenerateContent (full_prompt q (context_str ps) None)]
          \<and> fst (run_generate_response env2 q h) = fst (run_generate_response env1 q h)
          \<and> butlast (messages (full_prompt q (context_str ps) h) h) = [])"
proof (intro conjI impI)
  show "fst (run_generate_response env1 q h) = fst (run_generate_response env2 q h)"
    if "collection_query env1 [search_query q h] 10 = collection_query env2 [search_query q h] 10"
    using that by (simp add: run_generate_response_unfold split: sum.splits)
next
  assume a: "(h = None \<or> h = Some []) \<and> collection_query env1 [q] 10 = Inr r
        \<and> collection_query env2 [q] 10 = Inr r \<and> context_parts r = Inr ps"
  then have sq: "search_query q h = q"
    by (auto simp: search_query_def)
  have prompt: "full_prompt q (context_str ps) h = full_prompt q (context_str ps) None"
    using a by (auto simp: full_prompt_def context_note_def)
  have msgs: "messages p h = [Message ''user'' [p]]" for p
    using a by (auto simp: messages_def)
  show 1: "fst (run_generate_response env1 q h)
            = [CollectionQuery [q] 10, GenerateContent (full_prompt q (context_str ps) None)]"
    using a run_generate_response_ok [of env1 q h r ps]
    by (simp add: sq prompt msgs gemini_call_def)
  show "fst (run_generate_response env2 q h) = fst (run_generate_response env1 q h)"
    using a run_generate_response_ok [of env2 q h r ps] 1
    by (simp add: sq prompt msgs gemini_call_def)
  show "butlast (messages (full_prompt q (context_str ps) h) h) = []"
    by (simp add: msgs)
qed

theorem prompt_assembly_deterministic_witness:
  "fst (run_generate_response
        \<lparr>collection_query = (\<lambda>texts n. Inr None),
         generate_content = (\<lambda>prompt. Inr ''first reply''),
         send_message = (\<lambda>window prompt. Inr ''first reply'')\<rparr>
        ''pension'' None)
   = [CollectionQuery [''pension''] 10,
      GenerateContent (full_prompt ''pension'' (context_str []) None)]
   \<and> fst (run_generate_response
        \<lparr>collection_query = (\<lambda>texts n. Inr None),
         generate_content = (\<lambda>prompt. Inl (PyException ''deadline exceeded'')),
         send_message = (\<lambda>window prompt. Inr ''second reply'')\<rparr>
        ''pension'' None)
   = fst (run_generate_response
        \<lparr>collection_query = (\<lambda>texts n. Inr None),
         generate_content = (\<lambda>prompt. Inr ''first reply''),
         send_message = (\<lambda>window prompt. Inr ''first reply'')\<rparr>
        ''pension'' None)"
proof -
  let ?env1 = "\<lparr>collection_query = (\<lambda>texts n. Inr None),
         generate_content = (\<lambda>prompt. Inr ''first reply''),
         send_message = (\<lambda>window prompt. Inr ''first reply'')\<rparr>"
  let ?env2 = "\<lparr>collection_query = (\<lambda>texts n. Inr None),
         generate_content = (\<lambda>prompt. Inl (PyException ''deadline exceeded'')),
         send_message = (\<lambda>window prompt. Inr ''second reply'')\<rparr>"
  have hyp: "((None :: turn list option) = None \<or> (None :: turn list option) = Some [])
      \<and> collection_query ?env1 [''pension''] 10 = Inr None
      \<and> collection_query ?env2 [''pension''] 10 = Inr None
      \<and> context_parts None = Inr []"
    by (simp add: context_parts_def)
  have "fst (run_generate_response ?env1 ''pension'' None)
            = [CollectionQuery [''pension''] 10,
               GenerateContent (full_prompt ''pension'' (context_str []) None)]
      \<and> fst (run_generate_response ?env2 ''pension'' None)
          = fst (run_generate_response ?env1 ''pension'' None)
      \<and> butlast (messages (full_prompt ''pension'' (context_str []) None) None) = []"
    using hyp prompt_assembly_deterministic
      [where ?env1.0 = ?env1 and ?env2.0 = ?env2 and q = "''pension''" and h = None
         and r = None and ps = "[]"]
    by blast
  then show ?thesis
    by blast
qed

end
